theory Spec2Isabelle
  imports Complex_Main
begin

section \<open>Data model of the N-body engine\<close>

text \<open>
  The embedding follows \<^verbatim>\<open>src/src/N-body.py\<close>. Python numbers (floats, and the few
  integer literals mixed with them) are modelled as exact reals: rounding, overflow and
  NaN are outside the model. A Python exception is a value of type \<open>error\<close>. Bodies are
  mutable objects compared by identity (\<^verbatim>\<open>body != other_body\<close>); the model identifies a body
  with its index in \<^verbatim>\<open>self.system\<close>.
\<close>

datatype error = ZeroDivisionError | IndexError | ValueError | TypeError

datatype ident = IdStr string | IdInt int

record body =
  ident :: ident
  time :: real
  x :: real
  y :: real
  z :: real
  Vx :: real
  Vy :: real
  Vz :: real
  mass :: real
  radius :: real
  color1 :: real
  color2 :: real
  color3 :: real
  texture :: int
  coord :: "(real \<times> real \<times> real) list"
  Fx :: real
  Fy :: real
  Fz :: real
  bcollisions :: string

text \<open>The module-level constants read from the configuration file.\<close>

record config =
  GRAV_CONS :: real
  NORM_DELTA_T :: real
  FINE_DELTA_T :: real
  SEC_PER_DAY :: real
  SAVE_RATE :: int

text \<open>
  The fields of the global \<^verbatim>\<open>init\<close> object (class \<^verbatim>\<open>Definition\<close>) that the engine reads:
  the pause toggle and the user-adjustable normal step.
\<close>

record Definition =
  bool_T :: bool
  NORM_DELTA_T :: real

record asystem =
  DELTA_T :: real
  collisions :: string
  system :: "body list"
  count :: int
  closeness :: "string list"

section \<open>Body operations\<close>

definition zeroF :: "body \<Rightarrow> body" where
  "zeroF b = b\<lparr>Fx := 0, Fy := 0, Fz := 0\<rparr>"

text \<open>
  \<^verbatim>\<open>Body.cal_netforce\<close>: the division by \<^verbatim>\<open>distance**2\<close> raises before any field of
  \<^verbatim>\<open>self\<close> is written, so an error leaves the body as it was.
\<close>

definition cal_netforce :: "real \<Rightarrow> body \<Rightarrow> body \<Rightarrow> error + body" where
  "cal_netforce G b other_body =
     (let Dx = x other_body - x b;
          Dy = y other_body - y b;
          Dz = z other_body - z b;
          distance = sqrt (Dx\<^sup>2 + Dy\<^sup>2 + Dz\<^sup>2)
      in if distance\<^sup>2 = 0 then Inl ZeroDivisionError
         else let con = G * mass b * mass other_body / distance\<^sup>2
              in if distance = 0 then Inl ZeroDivisionError
                 else let gd = con / distance
                      in Inr (b\<lparr>Fx := Fx b + gd * Dx,
                                 Fy := Fy b + gd * Dy,
                                 Fz := Fz b + gd * Dz\<rparr>))"

text \<open>
  \<^verbatim>\<open>Body.cal_velocity\<close> reads the global system's \<^verbatim>\<open>DELTA_T\<close>, passed here as \<open>dt\<close>.
  The first statement already divides by the mass, so a zero mass raises with no
  velocity component written.
\<close>

definition cal_velocity :: "real \<Rightarrow> body \<Rightarrow> error + body" where
  "cal_velocity dt b =
     (if mass b = 0 then Inl ZeroDivisionError
      else Inr (b\<lparr>Vx := Vx b + Fx b * dt / mass b,
                 Vy := Vy b + Fy b * dt / mass b,
                 Vz := Vz b + Fz b * dt / mass b\<rparr>))"

definition cal_position :: "real \<Rightarrow> body \<Rightarrow> body" where
  "cal_position dt b =
     (let x' = x b + Vx b * dt;
          y' = y b + Vy b * dt;
          z' = z b + Vz b * dt
      in b\<lparr>x := x', y := y', z := z', coord := coord b @ [(x', y', z')]\<rparr>)"

section \<open>The two phases of a step\<close>

text \<open>
  The loop of \<^verbatim>\<open>Asystem.compute1\<close> over \<^verbatim>\<open>self.system\<close>: \<open>i\<close> is the index of the body being
  updated, the list pairs every body with its index (the body itself is skipped, so it
  does not matter that its own entry still shows the force before zeroing). The result
  carries the error, if one was raised, together with the body as the exception left it.
\<close>

fun force_loop :: "real \<Rightarrow> nat \<Rightarrow> body \<Rightarrow> (nat \<times> body) list \<Rightarrow> error option \<times> body" where
  "force_loop G i b [] = (None, b)"
| "force_loop G i b ((j, other_body) # rest) =
     (if i \<noteq> j then
        (case cal_netforce G b other_body of
           Inl e \<Rightarrow> (Some e, b)
         | Inr b' \<Rightarrow> force_loop G i b' rest)
      else force_loop G i b rest)"

definition enumerate_bodies :: "body list \<Rightarrow> (nat \<times> body) list" where
  "enumerate_bodies bs = zip [0..<length bs] bs"

definition set_body :: "asystem \<Rightarrow> nat \<Rightarrow> body \<Rightarrow> asystem" where
  "set_body S i b = S\<lparr>system := (system S)[i := b]\<rparr>"

definition compute1 :: "config \<Rightarrow> asystem \<Rightarrow> nat \<Rightarrow> error option \<times> asystem" where
  "compute1 cfg S i =
     (let b0 = zeroF (system S ! i) in
      case force_loop (GRAV_CONS cfg) i b0 (enumerate_bodies (system S)) of
        (Some e, b1) \<Rightarrow> (Some e, set_body S i b1)
      | (None, b1) \<Rightarrow>
          (case cal_velocity (DELTA_T S) b1 of
             Inl e \<Rightarrow> (Some e, set_body S i b1)
           | Inr b2 \<Rightarrow> (None, set_body S i b2)))"

definition compute2 :: "config \<Rightarrow> asystem \<Rightarrow> nat \<Rightarrow> error option \<times> asystem" where
  "compute2 cfg S i =
     (let b1 = cal_position (DELTA_T S) (system S ! i) in
      if SEC_PER_DAY cfg = 0 then (Some ZeroDivisionError, set_body S i b1)
      else (None, set_body S i (b1\<lparr>time := time b1 + DELTA_T S / SEC_PER_DAY cfg\<rparr>)))"

text \<open>
  \<^verbatim>\<open>animate\<close> starts one thread per body and joins them all before the next phase. An
  exception raised inside a thread ends that thread only: the caller of \<^verbatim>\<open>join\<close> does
  not see it. The model runs the tasks of a phase one after the other in start order,
  each task as one atomic action, and drops a task's error while keeping the writes it
  made before raising.
\<close>

definition phase1 :: "config \<Rightarrow> asystem \<Rightarrow> asystem" where
  "phase1 cfg S = foldl (\<lambda>T i. snd (compute1 cfg T i)) S [0..<length (system S)]"

definition phase2 :: "config \<Rightarrow> asystem \<Rightarrow> asystem" where
  "phase2 cfg S = foldl (\<lambda>T i. snd (compute2 cfg T i)) S [0..<length (system S)]"

section \<open>Text output\<close>

text \<open>
  Python's built-in conversions are not part of the repository; they are parameters of
  the model: \<^verbatim>\<open>str\<close> on a number, \<^verbatim>\<open>str\<close> on an integer, \<^verbatim>\<open>float\<close> and \<^verbatim>\<open>int\<close> on a string
  (both raise \<^verbatim>\<open>ValueError\<close> on text they do not accept).
\<close>

record pyenv =
  py_str_real :: "real \<Rightarrow> string"
  py_str_int :: "int \<Rightarrow> string"
  py_float :: "string \<Rightarrow> error + real"
  py_int :: "string \<Rightarrow> error + int"

abbreviation newline :: char where
  "newline \<equiv> CHR 0x0A"

fun str_ident :: "pyenv \<Rightarrow> ident \<Rightarrow> string" where
  "str_ident py (IdStr s) = s"
| "str_ident py (IdInt n) = py_str_int py n"

definition body_data :: "pyenv \<Rightarrow> body \<Rightarrow> string" where
  "body_data py b =
     str_ident py (ident b) @ '', ''
     @ py_str_real py (time b) @ '', ''
     @ py_str_real py (x b) @ '', ''
     @ py_str_real py (y b) @ '', ''
     @ py_str_real py (z b) @ '', ''
     @ py_str_real py (Vx b) @ '', ''
     @ py_str_real py (Vy b) @ '', ''
     @ py_str_real py (Vz b) @ '', ''
     @ py_str_real py (mass b) @ '', ''
     @ py_str_real py (radius b) @ '', ''
     @ py_str_real py (color1 b) @ '', ''
     @ py_str_real py (color2 b) @ '', ''
     @ py_str_real py (color3 b) @ '', ''
     @ py_str_int py (texture b) @ [newline]"

text \<open>The slice \<^verbatim>\<open>s[:-2]\<close>.\<close>

definition drop_last2 :: "string \<Rightarrow> string" where
  "drop_last2 s = take (length s - 2) s"

text \<open>
  \<^verbatim>\<open>Asystem.write_to_file\<close>: the text handed to \<^verbatim>\<open>file.write\<close>. The test
  \<^verbatim>\<open>close_list != []\<close> compares a string with a list and is always true.
\<close>

definition write_to_file :: "pyenv \<Rightarrow> asystem \<Rightarrow> string" where
  "write_to_file py S =
     (let data = concat (map (body_data py) (system S));
          data = data @ ''Collisions: '' @ collisions S @ [newline];
          close_list = concat (map (\<lambda>i. i @ '', '') (closeness S));
          close_list = drop_last2 close_list
      in data @ ''Closeness: '' @ close_list @ [newline, newline])"

section \<open>Collision scan and time-step selection\<close>

definition distance_between :: "body \<Rightarrow> body \<Rightarrow> real" where
  "distance_between a b = sqrt ((x a - x b)\<^sup>2 + (y a - y b)\<^sup>2 + (z a - z b)\<^sup>2)"

text \<open>
  The body of the inner loop of \<^verbatim>\<open>Asystem.if_collision\<close>, on the pair of the flag
  \<^verbatim>\<open>if_T\<close> and the string \<^verbatim>\<open>self.collisions\<close>.
\<close>

definition scan_pair :: "pyenv \<Rightarrow> body list \<Rightarrow> nat \<Rightarrow> bool \<times> string \<Rightarrow> nat \<Rightarrow> bool \<times> string" where
  "scan_pair py bs i acc j =
     (if i > j then
        (let distance = distance_between (bs ! i) (bs ! j);
             if_T = (if distance \<le> 30 * (radius (bs ! i) + radius (bs ! j)) then True else fst acc);
             colls = (if distance \<le> radius (bs ! i) + radius (bs ! j)
                      then snd acc @ str_ident py (ident (bs ! i)) @ '' and ''
                             @ str_ident py (ident (bs ! j)) @ '', ''
                      else snd acc)
         in (if_T, colls))
      else acc)"

definition scan :: "pyenv \<Rightarrow> body list \<Rightarrow> bool \<times> string" where
  "scan py bs =
     foldl (\<lambda>acc i. foldl (scan_pair py bs i) acc [0..<length bs]) (False, []) [0..<length bs]"

text \<open>
  \<^verbatim>\<open>Asystem.if_collision\<close>. The second component is the output file, as the list of the
  texts written to it so far. The on-screen text is not modelled.
\<close>

definition if_collision ::
  "pyenv \<Rightarrow> config \<Rightarrow> Definition \<Rightarrow> asystem \<Rightarrow> string list \<Rightarrow> asystem \<times> string list" where
  "if_collision py cfg ini S file =
     (let (if_T, colls) = scan py (system S);
          S1 = S\<lparr>collisions := colls\<rparr>
      in if \<not> bool_T ini then (S1\<lparr>DELTA_T := 0\<rparr>, file)
         else if if_T then
           (let S2 = S1\<lparr>DELTA_T := FINE_DELTA_T cfg\<rparr>
            in (S2, file @ [write_to_file py S2]))
         else (S1\<lparr>DELTA_T := Definition.NORM_DELTA_T ini\<rparr>, file))"

section \<open>Closeness bookkeeping\<close>

text \<open>The read \<^verbatim>\<open>xs[-i]\<close> for \<open>i \<ge> 1\<close>.\<close>

definition from_end :: "'a list \<Rightarrow> nat \<Rightarrow> error + 'a" where
  "from_end xs i = (if i \<le> length xs then Inr (xs ! (length xs - i)) else Inl IndexError)"

definition sample_distance :: "body \<Rightarrow> body \<Rightarrow> nat \<Rightarrow> error + real" where
  "sample_distance body1 body2 i =
     (case from_end (coord body1) i of
        Inl e \<Rightarrow> Inl e
      | Inr (x1, y1, z1) \<Rightarrow>
          (case from_end (coord body2) i of
             Inl e \<Rightarrow> Inl e
           | Inr (x2, y2, z2) \<Rightarrow> Inr (sqrt ((x1 - x2)\<^sup>2 + (y1 - y2)\<^sup>2 + (z1 - z2)\<^sup>2))))"

text \<open>
  The concatenation \<^verbatim>\<open>body1.ident + " and " + body2.ident + "; " + str(d)\<close>: \<^verbatim>\<open>+\<close> between an
  integer identity and a string raises \<^verbatim>\<open>TypeError\<close>.
\<close>

fun closeness_text :: "pyenv \<Rightarrow> ident \<Rightarrow> ident \<Rightarrow> real \<Rightarrow> error + string" where
  "closeness_text py (IdStr a) (IdStr b) d = Inr (a @ '' and '' @ b @ ''; '' @ py_str_real py d)"
| "closeness_text py _ _ d = Inl TypeError"

text \<open>
  \<^verbatim>\<open>Asystem.close_calc\<close>, returning the flag and the system with its \<^verbatim>\<open>closeness\<close> list.
\<close>

definition close_calc :: "pyenv \<Rightarrow> asystem \<Rightarrow> body \<Rightarrow> body \<Rightarrow> error + (bool \<times> asystem)" where
  "close_calc py S body1 body2 =
     (if length (coord body1) > 2 then
        (case sample_distance body1 body2 1 of
           Inl e \<Rightarrow> Inl e
         | Inr d0 \<Rightarrow>
        (case sample_distance body1 body2 2 of
           Inl e \<Rightarrow> Inl e
         | Inr d1 \<Rightarrow>
        (case sample_distance body1 body2 3 of
           Inl e \<Rightarrow> Inl e
         | Inr d2 \<Rightarrow>
             if d0 > d1 \<and> d1 < d2 then
               (case closeness_text py (ident body1) (ident body2) d1 of
                  Inl e \<Rightarrow> Inl e
                | Inr t \<Rightarrow> Inr (True, S\<lparr>closeness := closeness S @ [t]\<rparr>))
             else Inr (False, S))))
      else Inr (False, S))"

section \<open>One step\<close>

text \<open>
  \<^verbatim>\<open>Asystem.animate\<close>, with the part of \<^verbatim>\<open>display\<close> that touches the engine: \<^verbatim>\<open>display\<close> reads
  \<^verbatim>\<open>self.system[0]\<close> (an \<^verbatim>\<open>IndexError\<close> on an empty system) and then calls
  \<^verbatim>\<open>if_collision\<close>. The call of \<^verbatim>\<open>close_calc\<close> in \<^verbatim>\<open>animate\<close> is commented out in the source,
  so the step never runs it. \<open>ini\<close> is the state of the global \<^verbatim>\<open>init\<close> object during
  the step. An error of the result is one raised in the main thread.
\<close>

definition animate ::
  "pyenv \<Rightarrow> config \<Rightarrow> Definition \<Rightarrow> asystem \<times> string list \<Rightarrow> error + (asystem \<times> string list)" where
  "animate py cfg ini Sf =
     (let S1 = (fst Sf)\<lparr>closeness := []\<rparr>; file = snd Sf in
      if SAVE_RATE cfg = 0 then Inl ZeroDivisionError
      else
        (let file1 = (if count S1 mod SAVE_RATE cfg = 0 then file @ [write_to_file py S1] else file);
             S2 = phase1 cfg S1;
             S3 = phase2 cfg S2
         in if system S3 = [] then Inl IndexError
            else (let (S4, file2) = if_collision py cfg ini S3 file1
                  in Inr (S4\<lparr>count := count S4 + 1\<rparr>, file2))))"

text \<open>
  A run: one \<^verbatim>\<open>animate\<close> per element of the list, which gives the state of \<^verbatim>\<open>init\<close> at each
  step (the keyboard handler changes it between steps). The run ends at the first error
  raised in the main thread.
\<close>

fun run ::
  "pyenv \<Rightarrow> config \<Rightarrow> Definition list \<Rightarrow> asystem \<times> string list \<Rightarrow> error + (asystem \<times> string list)" where
  "run py cfg [] Sf = Inr Sf"
| "run py cfg (ini # inis) Sf =
     (case animate py cfg ini Sf of
        Inl e \<Rightarrow> Inl e
      | Inr Sf' \<Rightarrow> run py cfg inis Sf')"

section \<open>Construction\<close>

text \<open>
  \<^verbatim>\<open>Body.__init__\<close> with every argument given (the random defaults for missing arguments
  are not modelled): the trajectory starts empty and the force is zeroed.
\<close>

definition Body ::
  "ident \<Rightarrow> real \<Rightarrow> real \<Rightarrow> real \<Rightarrow> real \<Rightarrow> real \<Rightarrow> real \<Rightarrow> real \<Rightarrow> real \<Rightarrow> real
     \<Rightarrow> real \<Rightarrow> real \<Rightarrow> real \<Rightarrow> int \<Rightarrow> body" where
  "Body idn t px py pz vx vy vz m r c1 c2 c3 tex =
     zeroF \<lparr>ident = idn, time = t, x = px, y = py, z = pz, Vx = vx, Vy = vy, Vz = vz,
            mass = m, radius = r, color1 = c1, color2 = c2, color3 = c3, texture = tex,
            coord = [], Fx = 0, Fy = 0, Fz = 0, bcollisions = []\<rparr>"

text \<open>
  \<^verbatim>\<open>Asystem.__init__\<close>, given the body list it ends up with (read from a file, or appended
  by one of the generators to the empty system \<^verbatim>\<open>Asystem(0)\<close>).
\<close>

definition Asystem :: "config \<Rightarrow> body list \<Rightarrow> asystem" where
  "Asystem cfg bodies =
     \<lparr>DELTA_T = config.NORM_DELTA_T cfg, collisions = [], system = bodies, count = 0,
      closeness = []\<rparr>"

section \<open>Notions used to state the properties\<close>

text \<open>
  These definitions are not code of the program: they say what the properties below
  are about. \<open>erase_force_velocity\<close> forgets the force accumulator and the velocity, so
  two bodies with the same image differ in those six fields at most. \<open>newton_force\<close>
  is the law of gravitation as the specification words it: a magnitude
  \<open>G m\<^sub>i m\<^sub>j / d\<^sup>2\<close> along the unit vector from the body to the other one.
\<close>

definition erase_force_velocity :: "body \<Rightarrow> body" where
  "erase_force_velocity b = b\<lparr>Fx := 0, Fy := 0, Fz := 0, Vx := 0, Vy := 0, Vz := 0\<rparr>"

definition newton_force :: "real \<Rightarrow> body \<Rightarrow> body \<Rightarrow> real \<times> real \<times> real" where
  "newton_force G b other_body =
     (let d = distance_between other_body b;
          magnitude = G * mass b * mass other_body / d\<^sup>2
      in (magnitude * ((x other_body - x b) / d),
          magnitude * ((y other_body - y b) / d),
          magnitude * ((z other_body - z b) / d)))"

definition same_place :: "body \<Rightarrow> body \<Rightarrow> bool" where
  "same_place a b = (x a = x b \<and> y a = y b \<and> z a = z b)"

definition others :: "nat \<Rightarrow> (nat \<times> body) list \<Rightarrow> body list" where
  "others i ps = map snd (filter (\<lambda>p. fst p \<noteq> i) ps)"

definition tasks_done :: "config \<Rightarrow> asystem \<Rightarrow> nat list \<Rightarrow> asystem \<Rightarrow> bool" where
  "tasks_done cfg S ks T \<longleftrightarrow>
     T = S\<lparr>system := system T\<rparr> \<and> length (system T) = length (system S) \<and>
     (\<forall>k < length (system S).
        system T ! k = (if k \<in> set ks then system (snd (compute1 cfg S k)) ! k else system S ! k))"

definition moved :: "config \<Rightarrow> real \<Rightarrow> body \<Rightarrow> body" where
  "moved cfg dt b =
     (let b1 = cal_position dt b
      in if SEC_PER_DAY cfg = 0 then b1 else b1\<lparr>time := time b1 + dt / SEC_PER_DAY cfg\<rparr>)"


definition net_force :: "real \<Rightarrow> body list \<Rightarrow> nat \<Rightarrow> real \<times> real \<times> real" where
  "net_force G bs i =
     (let js = filter (\<lambda>j. j \<noteq> i) [0..<length bs]
      in (\<Sum>j\<leftarrow>js. fst (newton_force G (bs ! i) (bs ! j)),
          \<Sum>j\<leftarrow>js. fst (snd (newton_force G (bs ! i) (bs ! j))),
          \<Sum>j\<leftarrow>js. snd (snd (newton_force G (bs ! i) (bs ! j)))))"

section \<open>Concrete systems\<close>

text \<open>Small systems on which the properties are evaluated.\<close>

definition demo_config :: config where
  "demo_config = \<lparr>GRAV_CONS = 1, NORM_DELTA_T = 1, FINE_DELTA_T = 1 / 2, SEC_PER_DAY = 1, SAVE_RATE = 10\<rparr>"

definition body_at :: "string \<Rightarrow> real \<Rightarrow> real \<Rightarrow> real \<Rightarrow> real \<Rightarrow> real \<Rightarrow> real \<Rightarrow> real \<Rightarrow> real \<Rightarrow> body" where
  "body_at name px py pz vx vy vz m r = Body (IdStr name) 0 px py pz vx vy vz m r 0 0 0 0"

text \<open>Two bodies at rest, two length units apart on the first axis.\<close>

definition pair_system :: asystem where
  "pair_system = Asystem demo_config [body_at ''a'' 0 0 0 0 0 0 2 0, body_at ''b'' 2 0 0 0 0 0 3 0]"

text \<open>
  A fragment of Python's conversions, enough for the numbers of the concrete systems:
  \<^verbatim>\<open>float\<close> and \<^verbatim>\<open>int\<close> skip the blank that follows the comma, \<^verbatim>\<open>int\<close> also the newline
  that ends the line.
\<close>

definition demo_py :: pyenv where
  "demo_py =
     \<lparr>py_str_real = (\<lambda>r. if r = 0 then ''0.0'' else if r = 1 then ''1.0'' else ''2.0''),
      py_str_int = (\<lambda>n. if n = 0 then ''0'' else ''1''),
      py_float = (\<lambda>s. if s = '' 0.0'' then Inr 0 else if s = '' 1.0'' then Inr 1
                        else if s = '' 2.0'' then Inr 2 else Inl ValueError),
      py_int = (\<lambda>s. if s = '' 0'' @ [newline] then Inr 0 else if s = '' 1'' @ [newline] then Inr 1
                      else Inl ValueError)\<rparr>"

definition demo_init :: Definition where
  "demo_init = \<lparr>bool_T = True, NORM_DELTA_T = 1\<rparr>"

text \<open>Two bodies at the same place (the origin) and a third one two units away.\<close>

definition coincident_system :: asystem where
  "coincident_system =
     Asystem demo_config [body_at ''a'' 0 0 0 1 0 0 2 0, body_at ''b'' 0 0 0 0 0 0 3 0,
                          body_at ''c'' 2 0 0 0 0 0 1 0]"

text \<open>
  The pairs in the order the scan visits them, the two classes of a pair, and the entry
  the scan appends for a collided pair.
\<close>

definition pairs :: "nat \<Rightarrow> (nat \<times> nat) list" where
  "pairs n = concat (map (\<lambda>i. map (\<lambda>j. (i, j)) [0..<i]) [0..<n])"

definition collided :: "body list \<Rightarrow> nat \<times> nat \<Rightarrow> bool" where
  "collided bs p =
     (distance_between (bs ! fst p) (bs ! snd p) \<le> radius (bs ! fst p) + radius (bs ! snd p))"

definition near :: "body list \<Rightarrow> nat \<times> nat \<Rightarrow> bool" where
  "near bs p =
     (distance_between (bs ! fst p) (bs ! snd p) \<le> 30 * (radius (bs ! fst p) + radius (bs ! snd p)))"

definition collision_text :: "pyenv \<Rightarrow> body list \<Rightarrow> nat \<times> nat \<Rightarrow> string" where
  "collision_text py bs p =
     str_ident py (ident (bs ! fst p)) @ '' and '' @ str_ident py (ident (bs ! snd p)) @ '', ''"

text \<open>Three bodies of radius 1 on the first axis, at 0, 2 and 100; a paused \<^verbatim>\<open>init\<close>.\<close>

definition touching_system :: asystem where
  "touching_system =
     Asystem demo_config [body_at ''a'' 0 0 0 0 0 0 1 1, body_at ''b'' 2 0 0 0 0 0 1 1,
                          body_at ''c'' 100 0 0 0 0 0 1 1]"

definition paused_init :: Definition where
  "paused_init = \<lparr>bool_T = False, NORM_DELTA_T = 1\<rparr>"

text \<open>
  The total momentum of a body list, positions that are pairwise distinct, and a run
  every step of which starts from pairwise distinct positions.
\<close>

definition momentum :: "body list \<Rightarrow> real \<times> real \<times> real" where
  "momentum bs =
     (\<Sum>b\<leftarrow>bs. mass b * Vx b, \<Sum>b\<leftarrow>bs. mass b * Vy b, \<Sum>b\<leftarrow>bs. mass b * Vz b)"

definition pairwise_apart :: "body list \<Rightarrow> bool" where
  "pairwise_apart bs \<longleftrightarrow>
     (\<forall>i < length bs. \<forall>j < length bs. i \<noteq> j \<longrightarrow> \<not> same_place (bs ! j) (bs ! i))"

fun run_apart ::
  "pyenv \<Rightarrow> config \<Rightarrow> Definition list \<Rightarrow> asystem \<times> string list \<Rightarrow> bool" where
  "run_apart py cfg [] Sf = True"
| "run_apart py cfg (ini # inis) Sf =
     (pairwise_apart (system (fst Sf)) \<and>
      (case animate py cfg ini Sf of
         Inl e \<Rightarrow> True
       | Inr Sf' \<Rightarrow> run_apart py cfg inis Sf'))"

text \<open>
  Three bodies of mass 1 on the first axis whose velocities make the first two meet at
  the origin after one step of length 1.
\<close>

definition merging_system :: asystem where
  "merging_system =
     Asystem demo_config
       [body_at ''a'' 0 0 0 (- (3 / 16)) 0 0 1 0,
        body_at ''b'' 2 0 0 (- (31 / 18)) 0 0 1 0,
        body_at ''c'' (- 4) 0 0 (- (13 / 144)) 0 0 1 0]"





section \<open>Reading a system from text\<close>

abbreviation comma :: char where
  "comma \<equiv> CHR '',''"













text \<open>
  What the round trip needs of the conversions for the values of a body: the texts
  \<^verbatim>\<open>str\<close> produces contain no comma and no newline, \<^verbatim>\<open>float\<close> and \<^verbatim>\<open>int\<close> give the value
  back from the text as it stands in the line (after the blank, and for the last field
  before the newline), and the identity does not print as the header token.
  \<open>reread\<close> is the body the reader builds from the record of a body.
\<close>

definition plain :: "string \<Rightarrow> bool" where
  "plain s \<longleftrightarrow> comma \<notin> set s \<and> newline \<notin> set s"





text \<open>
  The sum of the contributions to body \<open>i\<close> of the other bodies listed before index \<open>k\<close>.
\<close>

definition force_before :: "real \<Rightarrow> body list \<Rightarrow> nat \<Rightarrow> nat \<Rightarrow> real \<times> real \<times> real" where
  "force_before G bs i k =
     (let js = filter (\<lambda>j. j \<noteq> i) [0..<k]
      in (\<Sum>j\<leftarrow>js. fst (newton_force G (bs ! i) (bs ! j)),
          \<Sum>j\<leftarrow>js. fst (snd (newton_force G (bs ! i) (bs ! j))),
          \<Sum>j\<leftarrow>js. snd (snd (newton_force G (bs ! i) (bs ! j)))))"

text \<open>
  A body apart, then two coincident bodies, the first of them with a force left in its
  accumulator.
\<close>

definition stale_system :: asystem where
  "stale_system =
     Asystem demo_config
       [body_at ''c'' 2 0 0 0 0 0 1 0,
        (body_at ''a'' 0 0 0 1 0 0 2 0)\<lparr>Fx := 7\<rparr>,
        body_at ''b'' 0 0 0 0 0 0 3 0]"

section \<open>Force accumulation\<close>

lemma distance_zero_iff: "distance_between a b = 0 \<longleftrightarrow> same_place a b"
  unfolding distance_between_def same_place_def
  by (simp add: sum_power2_eq_zero_iff real_sqrt_eq_zero_cancel_iff add_nonneg_eq_0_iff)

lemma cal_netforce_same_place:
  "same_place other_body b \<Longrightarrow> cal_netforce G b other_body = Inl ZeroDivisionError"
  unfolding cal_netforce_def same_place_def by simp

lemma cal_netforce_apart:
  assumes "\<not> same_place other_body b"
  shows "cal_netforce G b other_body =
     Inr (b\<lparr>Fx := Fx b + fst (newton_force G b other_body),
            Fy := Fy b + fst (snd (newton_force G b other_body)),
            Fz := Fz b + snd (snd (newton_force G b other_body))\<rparr>)"
proof -
  have "distance_between other_body b \<noteq> 0"
    using assms by (simp add: distance_zero_iff)
  then show ?thesis
    unfolding cal_netforce_def newton_force_def distance_between_def
    by (simp add: Let_def)
qed

lemma distance_between_commute: "distance_between a b = distance_between b a"
  unfolding distance_between_def by (simp add: power2_commute)

lemma newton_force_erase [simp]:
  "newton_force G (b\<lparr>Fx := fx, Fy := fy, Fz := fz\<rparr>) other_body = newton_force G b other_body"
  unfolding newton_force_def distance_between_def by simp

lemma same_place_erase [simp]:
  "same_place other_body (b\<lparr>Fx := fx, Fy := fy, Fz := fz\<rparr>) = same_place other_body b"
  unfolding same_place_def by simp

lemma others_Cons [simp]:
  "others i ((j, ob) # ps) = (if j \<noteq> i then ob # others i ps else others i ps)"
  by (simp add: others_def)

lemma others_Nil [simp]: "others i [] = []"
  by (simp add: others_def)

lemma force_loop_sum:
  assumes "\<forall>ob \<in> set (others i ps). \<not> same_place ob b"
  shows "force_loop G i b ps =
     (None, b\<lparr>Fx := Fx b + (\<Sum>ob\<leftarrow>others i ps. fst (newton_force G b ob)),
              Fy := Fy b + (\<Sum>ob\<leftarrow>others i ps. fst (snd (newton_force G b ob))),
              Fz := Fz b + (\<Sum>ob\<leftarrow>others i ps. snd (snd (newton_force G b ob)))\<rparr>)"
  using assms
proof (induction ps arbitrary: b)
  case Nil
  show ?case by simp
next
  case (Cons p ps)
  obtain j ob where p: "p = (j, ob)" by (cases p)
  show ?case
  proof (cases "i = j")
    case True
    with Cons p show ?thesis by simp
  next
    case False
    with Cons.prems p have apart: "\<not> same_place ob b"
      and rest: "\<forall>ob \<in> set (others i ps). \<not> same_place ob b" by auto
    let ?b' = "b\<lparr>Fx := Fx b + fst (newton_force G b ob),
            Fy := Fy b + fst (snd (newton_force G b ob)),
            Fz := Fz b + snd (snd (newton_force G b ob))\<rparr>"
    have "force_loop G i b (p # ps) = force_loop G i ?b' ps"
      using False p cal_netforce_apart [OF apart, of G] by simp
    also have "\<dots> = (None, ?b'\<lparr>Fx := Fx ?b' + (\<Sum>ob\<leftarrow>others i ps. fst (newton_force G ?b' ob)),
              Fy := Fy ?b' + (\<Sum>ob\<leftarrow>others i ps. fst (snd (newton_force G ?b' ob))),
              Fz := Fz ?b' + (\<Sum>ob\<leftarrow>others i ps. snd (snd (newton_force G ?b' ob)))\<rparr>)"
      by (rule Cons.IH) (use rest in simp)
    finally show ?thesis using False p by (simp add: add.assoc)
  qed
qed

lemma force_loop_frame: "zeroF (snd (force_loop G i b ps)) = zeroF b"
proof (induction ps arbitrary: b)
  case Nil
  show ?case by simp
next
  case (Cons p ps)
  obtain j ob where p: "p = (j, ob)" by (cases p)
  show ?case
  proof (cases "cal_netforce G b ob")
    case (Inl e)
    with p Cons show ?thesis by auto
  next
    case (Inr b')
    then have "zeroF b' = zeroF b"
      unfolding cal_netforce_def zeroF_def by (auto simp: Let_def split: if_splits)
    with p Cons Inr show ?thesis by auto
  qed
qed

lemma enumerate_bodies_map: "enumerate_bodies bs = map (\<lambda>j. (j, bs ! j)) [0..<length bs]"
  unfolding enumerate_bodies_def by (rule nth_equalityI) simp_all

lemma others_enumerate:
  "others i (enumerate_bodies bs) = map (\<lambda>j. bs ! j) (filter (\<lambda>j. j \<noteq> i) [0..<length bs])"
  unfolding others_def enumerate_bodies_map by (simp add: filter_map comp_def)

lemma zeroF_erase [simp]: "erase_force_velocity (zeroF b) = erase_force_velocity b"
  unfolding erase_force_velocity_def zeroF_def by simp

lemma zeroF_erase_fv: "zeroF a = zeroF b \<Longrightarrow> erase_force_velocity a = erase_force_velocity b"
proof -
  assume h: "zeroF a = zeroF b"
  have "erase_force_velocity a = erase_force_velocity (zeroF a)" by simp
  also have "\<dots> = erase_force_velocity (zeroF b)" by (simp only: h)
  also have "\<dots> = erase_force_velocity b" by simp
  finally show ?thesis .
qed

lemma cal_velocity_frame:
  "cal_velocity dt b = Inr b' \<Longrightarrow> erase_force_velocity b' = erase_force_velocity b"
  unfolding cal_velocity_def erase_force_velocity_def by (auto split: if_splits)

lemma compute1_set_body:
  "\<exists>b. snd (compute1 cfg S i) = set_body S i b
     \<and> erase_force_velocity b = erase_force_velocity (system S ! i)"
proof -
  let ?b0 = "zeroF (system S ! i)"
  obtain e b1 where fl: "force_loop (GRAV_CONS cfg) i ?b0 (enumerate_bodies (system S)) = (e, b1)"
    by (cases "force_loop (GRAV_CONS cfg) i ?b0 (enumerate_bodies (system S))")
  have "zeroF b1 = zeroF ?b0"
    using force_loop_frame [of "GRAV_CONS cfg" i ?b0 "enumerate_bodies (system S)"] fl by simp
  then have b1: "erase_force_velocity b1 = erase_force_velocity (system S ! i)"
    using zeroF_erase_fv [of b1 ?b0] by simp
  show ?thesis
  proof (cases e)
    case (Some err)
    with fl b1 show ?thesis by (auto simp: compute1_def)
  next
    case None
    show ?thesis
    proof (cases "cal_velocity (DELTA_T S) b1")
      case (Inl err)
      with fl b1 None show ?thesis by (auto simp: compute1_def)
    next
      case (Inr b2)
      with fl b1 None cal_velocity_frame [OF Inr] show ?thesis by (auto simp: compute1_def)
    qed
  qed
qed

lemma cal_netforce_cong:
  "erase_force_velocity ob = erase_force_velocity ob' \<Longrightarrow>
   cal_netforce G b ob = cal_netforce G b ob'"
proof -
  assume h: "erase_force_velocity ob = erase_force_velocity ob'"
  have "x ob = x (erase_force_velocity ob)" "y ob = y (erase_force_velocity ob)"
       "z ob = z (erase_force_velocity ob)" "mass ob = mass (erase_force_velocity ob)"
    by (simp_all add: erase_force_velocity_def)
  moreover have "x ob' = x (erase_force_velocity ob')" "y ob' = y (erase_force_velocity ob')"
       "z ob' = z (erase_force_velocity ob')" "mass ob' = mass (erase_force_velocity ob')"
    by (simp_all add: erase_force_velocity_def)
  ultimately have "x ob = x ob'" "y ob = y ob'" "z ob = z ob'" "mass ob = mass ob'"
    using h by simp_all
  then show ?thesis by (simp add: cal_netforce_def Let_def)
qed

lemma force_loop_cong:
  assumes "\<forall>k \<in> set ns. erase_force_velocity (bs ! k) = erase_force_velocity (bs' ! k)"
  shows "force_loop G i b (map (\<lambda>j. (j, bs ! j)) ns) = force_loop G i b (map (\<lambda>j. (j, bs' ! j)) ns)"
  using assms
proof (induction ns arbitrary: b)
  case Nil
  show ?case by simp
next
  case (Cons k ns)
  then have "cal_netforce G b (bs ! k) = cal_netforce G b (bs' ! k)"
    by (intro cal_netforce_cong) simp
  with Cons show ?case by (auto split: sum.splits)
qed

lemma compute1_cong:
  assumes len: "length (system T) = length (system S)"
    and dt: "DELTA_T T = DELTA_T S"
    and same: "\<forall>k < length (system S). erase_force_velocity (system T ! k) = erase_force_velocity (system S ! k)"
    and i: "i < length (system S)" "system T ! i = system S ! i"
  shows "system (snd (compute1 cfg T i)) ! i = system (snd (compute1 cfg S i)) ! i"
proof -
  have fl: "force_loop (GRAV_CONS cfg) i (zeroF (system S ! i)) (enumerate_bodies (system T))
      = force_loop (GRAV_CONS cfg) i (zeroF (system S ! i)) (enumerate_bodies (system S))"
    unfolding enumerate_bodies_map len
    by (rule force_loop_cong) (use same in simp)
  show ?thesis
    using i len dt fl
    by (simp add: compute1_def set_body_def split: prod.splits option.splits sum.splits)
qed

lemma compute1_frame:
  assumes "i < length (system S)"
  shows "erase_force_velocity (system (snd (compute1 cfg S i)) ! i) = erase_force_velocity (system S ! i)"
proof -
  obtain b where "snd (compute1 cfg S i) = set_body S i b"
    and "erase_force_velocity b = erase_force_velocity (system S ! i)"
    using compute1_set_body by blast
  with assms show ?thesis by (simp add: set_body_def)
qed

lemma tasks_done_frame:
  assumes "tasks_done cfg S ks T" "k < length (system S)"
  shows "erase_force_velocity (system T ! k) = erase_force_velocity (system S ! k)"
  using assms compute1_frame [of k S cfg] by (simp add: tasks_done_def)

lemma tasks_done_fold:
  assumes "distinct ks" "\<forall>k \<in> set ks. k < length (system S)"
  shows "tasks_done cfg S ks (foldl (\<lambda>T i. snd (compute1 cfg T i)) S ks)"
  using assms
proof (induction ks rule: rev_induct)
  case Nil
  show ?case by (simp add: tasks_done_def)
next
  case (snoc i ks)
  let ?T = "foldl (\<lambda>T i. snd (compute1 cfg T i)) S ks"
  have inv: "tasks_done cfg S ks ?T" using snoc by simp
  have i: "i < length (system S)" "i \<notin> set ks" using snoc.prems by simp_all
  have len: "length (system ?T) = length (system S)" using inv by (simp add: tasks_done_def)
  have rest: "?T = S\<lparr>system := system ?T\<rparr>" using inv by (simp add: tasks_done_def)
  have dt: "DELTA_T ?T = DELTA_T S" by (subst rest) simp
  have Ti: "system ?T ! i = system S ! i" using inv i by (simp add: tasks_done_def)
  have same: "\<forall>k < length (system S).
      erase_force_velocity (system ?T ! k) = erase_force_velocity (system S ! k)"
    using tasks_done_frame [OF inv] by simp
  have new: "system (snd (compute1 cfg ?T i)) ! i = system (snd (compute1 cfg S i)) ! i"
    by (rule compute1_cong [OF len dt same i(1) Ti])
  obtain b where b: "snd (compute1 cfg ?T i) = set_body ?T i b"
    using compute1_set_body by blast
  have bi: "b = system (snd (compute1 cfg S i)) ! i"
    using new b i len by (simp add: set_body_def)
  have fold: "foldl (\<lambda>T i. snd (compute1 cfg T i)) S (ks @ [i]) = set_body ?T i b"
    using b by simp
  have "tasks_done cfg S (ks @ [i]) (set_body ?T i b)"
    unfolding tasks_done_def
  proof (intro conjI allI impI)
    show "set_body ?T i b = S\<lparr>system := system (set_body ?T i b)\<rparr>"
      by (subst rest) (simp add: set_body_def)
    show "length (system (set_body ?T i b)) = length (system S)"
      using len by (simp add: set_body_def)
    fix k assume k: "k < length (system S)"
    show "system (set_body ?T i b) ! k =
        (if k \<in> set (ks @ [i]) then system (snd (compute1 cfg S k)) ! k else system S ! k)"
    proof (cases "k = i")
      case True
      with bi len i show ?thesis by (simp add: set_body_def)
    next
      case False
      with inv k show ?thesis by (simp add: set_body_def tasks_done_def)
    qed
  qed
  with fold show ?case by simp
qed

lemma phase1_tasks_done: "tasks_done cfg S [0..<length (system S)] (phase1 cfg S)"
  unfolding phase1_def by (rule tasks_done_fold) simp_all

lemma compute2_snd: "snd (compute2 cfg S i) = set_body S i (moved cfg (DELTA_T S) (system S ! i))"
  by (simp add: compute2_def moved_def Let_def)

lemma phase2_fold:
  assumes "distinct ks" "\<forall>k \<in> set ks. k < length (system S)"
  shows "foldl (\<lambda>T i. snd (compute2 cfg T i)) S ks =
     S\<lparr>system := map (\<lambda>k. if k \<in> set ks then moved cfg (DELTA_T S) (system S ! k) else system S ! k)
                      [0..<length (system S)]\<rparr>"
  using assms
proof (induction ks rule: rev_induct)
  case Nil
  have "map (\<lambda>k. system S ! k) [0..<length (system S)] = system S"
    by (rule map_nth)
  then show ?case by simp
next
  case (snoc i ks)
  let ?f = "\<lambda>ks k. if k \<in> set ks then moved cfg (DELTA_T S) (system S ! k) else system S ! k"
  let ?T = "S\<lparr>system := map (?f ks) [0..<length (system S)]\<rparr>"
  have i: "i < length (system S)" "i \<notin> set ks" using snoc.prems by simp_all
  have "foldl (\<lambda>T i. snd (compute2 cfg T i)) S (ks @ [i]) = snd (compute2 cfg ?T i)"
    using snoc by simp
  also have "\<dots> = set_body ?T i (moved cfg (DELTA_T S) (system S ! i))"
    using i by (simp add: compute2_snd)
  also have "\<dots> = S\<lparr>system := map (?f (ks @ [i])) [0..<length (system S)]\<rparr>"
  proof -
    have "(map (?f ks) [0..<length (system S)])[i := moved cfg (DELTA_T S) (system S ! i)]
        = map (?f (ks @ [i])) [0..<length (system S)]"
      using i by (intro nth_equalityI) (auto simp: nth_list_update)
    then show ?thesis by (simp add: set_body_def)
  qed
  finally show ?case .
qed

lemma phase2_map: "phase2 cfg S = S\<lparr>system := map (moved cfg (DELTA_T S)) (system S)\<rparr>"
proof -
  have "map (\<lambda>k. if k \<in> set [0..<length (system S)] then moved cfg (DELTA_T S) (system S ! k)
                   else system S ! k) [0..<length (system S)]
      = map (moved cfg (DELTA_T S)) (system S)"
    by (rule nth_equalityI) simp_all
  then show ?thesis
    unfolding phase2_def by (subst phase2_fold) simp_all
qed




lemma force_loop_net:
  assumes "\<forall>j < length bs. j \<noteq> i \<longrightarrow> \<not> same_place (bs ! j) (bs ! i)"
  shows "force_loop G i (zeroF (bs ! i)) (enumerate_bodies bs) =
     (None, (bs ! i)\<lparr>Fx := fst (net_force G bs i),
                     Fy := fst (snd (net_force G bs i)),
                     Fz := snd (snd (net_force G bs i))\<rparr>)"
proof -
  have apart: "\<forall>ob \<in> set (others i (enumerate_bodies bs)). \<not> same_place ob (zeroF (bs ! i))"
    using assms by (auto simp: others_enumerate zeroF_def same_place_def)
  have nf: "newton_force G (zeroF (bs ! i)) ob = newton_force G (bs ! i) ob" for ob
    by (simp add: zeroF_def)
  show ?thesis
    by (simp add: force_loop_sum [OF apart] nf others_enumerate net_force_def Let_def comp_def)
       (simp add: zeroF_def)
qed

lemma compute1_apart:
  assumes i: "i < length (system S)"
    and apart: "\<forall>j < length (system S). j \<noteq> i \<longrightarrow> \<not> same_place (system S ! j) (system S ! i)"
  shows "compute1 cfg S i =
     (let bF = (system S ! i)\<lparr>Fx := fst (net_force (GRAV_CONS cfg) (system S) i),
                               Fy := fst (snd (net_force (GRAV_CONS cfg) (system S) i)),
                               Fz := snd (snd (net_force (GRAV_CONS cfg) (system S) i))\<rparr>
      in if mass (system S ! i) = 0 then (Some ZeroDivisionError, set_body S i bF)
         else (None, set_body S i (bF\<lparr>Vx := Vx bF + Fx bF * DELTA_T S / mass bF,
                                      Vy := Vy bF + Fy bF * DELTA_T S / mass bF,
                                      Vz := Vz bF + Fz bF * DELTA_T S / mass bF\<rparr>)))"
  by (simp add: compute1_def force_loop_net [OF apart] cal_velocity_def Let_def)


lemma pair_bodies:
  "system pair_system = [body_at ''a'' 0 0 0 0 0 0 2 0, body_at ''b'' 2 0 0 0 0 0 3 0]"
  by (simp add: pair_system_def Asystem_def)

lemma pair_newton: "newton_force 1 (system pair_system ! 0) (system pair_system ! 1) = (3 / 2, 0, 0)"
  by (simp add: pair_bodies body_at_def Body_def zeroF_def newton_force_def distance_between_def Let_def)


section \<open>The phases of a step\<close>

lemma phase1_rest: "phase1 cfg S = S\<lparr>system := system (phase1 cfg S)\<rparr>"
  using phase1_tasks_done [of cfg S] by (simp add: tasks_done_def)

lemma phase1_length [simp]: "length (system (phase1 cfg S)) = length (system S)"
  using phase1_tasks_done [of cfg S] by (simp add: tasks_done_def)

lemma phase1_DELTA_T [simp]: "DELTA_T (phase1 cfg S) = DELTA_T S"
  by (subst phase1_rest) simp

lemma phase1_count [simp]: "count (phase1 cfg S) = count S"
  by (subst phase1_rest) simp

lemma phase1_closeness [simp]: "closeness (phase1 cfg S) = closeness S"
  by (subst phase1_rest) simp

lemma phase2_count [simp]: "count (phase2 cfg S) = count S"
  by (simp add: phase2_map)

lemma phase2_closeness [simp]: "closeness (phase2 cfg S) = closeness S"
  by (simp add: phase2_map)

lemma phase1_nth:
  "i < length (system S) \<Longrightarrow> system (phase1 cfg S) ! i = system (snd (compute1 cfg S i)) ! i"
  using phase1_tasks_done [of cfg S] by (simp add: tasks_done_def)

lemma phase1_frame:
  "i < length (system S) \<Longrightarrow>
   erase_force_velocity (system (phase1 cfg S) ! i) = erase_force_velocity (system S ! i)"
  by (rule tasks_done_frame [OF phase1_tasks_done])

lemma phase2_length [simp]: "length (system (phase2 cfg S)) = length (system S)"
  by (simp add: phase2_map)

lemma if_collision_system [simp]: "system (fst (if_collision py cfg ini S file)) = system S"
  by (simp add: if_collision_def Let_def split: prod.splits)

lemma if_collision_count [simp]: "count (fst (if_collision py cfg ini S file)) = count S"
  by (simp add: if_collision_def Let_def split: prod.splits)

lemma if_collision_closeness [simp]: "closeness (fst (if_collision py cfg ini S file)) = closeness S"
  by (simp add: if_collision_def Let_def split: prod.splits)

lemma animate_Inr:
  assumes "SAVE_RATE cfg \<noteq> 0" "system S \<noteq> []"
  shows "animate py cfg ini (S, file) =
     (let S1 = S\<lparr>closeness := []\<rparr>;
          file1 = (if count S mod SAVE_RATE cfg = 0 then file @ [write_to_file py S1] else file);
          S3 = phase2 cfg (phase1 cfg S1);
          r = if_collision py cfg ini S3 file1
      in Inr ((fst r)\<lparr>count := count S + 1\<rparr>, snd r))"
proof -
  have "length (system (phase2 cfg (phase1 cfg (S\<lparr>closeness := []\<rparr>)))) = length (system S)"
    by simp
  with assms(2) have ne: "system (phase2 cfg (phase1 cfg (S\<lparr>closeness := []\<rparr>))) \<noteq> []"
    by (metis length_0_conv)
  show ?thesis
    using assms(1) ne by (simp add: animate_def Let_def split_beta)
qed

lemma erase_x: "erase_force_velocity a = erase_force_velocity b \<Longrightarrow> x a = x b \<and> y a = y b \<and> z a = z b"
proof -
  assume h: "erase_force_velocity a = erase_force_velocity b"
  have "x a = x (erase_force_velocity a)" "y a = y (erase_force_velocity a)"
       "z a = z (erase_force_velocity a)"
    by (simp_all add: erase_force_velocity_def)
  moreover have "x b = x (erase_force_velocity b)" "y b = y (erase_force_velocity b)"
       "z b = z (erase_force_velocity b)"
    by (simp_all add: erase_force_velocity_def)
  ultimately show ?thesis using h by simp
qed

text \<open>
  Claim C1. Every task of the force-and-velocity phase leaves all fields of every body
  other than the force accumulator and the velocity as they were (in particular the
  position), the phase changes nothing else of the system, and the body \<open>i\<close> it produces
  is the one \<^verbatim>\<open>compute1\<close> computes for \<open>i\<close> on the state at the start of the step: every
  new velocity comes from the positions all bodies held at the start of the step.
  A step that returns is the position phase run on the result of the whole
  force-and-velocity phase.
\<close>

theorem phase_barrier:
  "phase1 cfg S = S\<lparr>system := system (phase1 cfg S)\<rparr>
   \<and> length (system (phase1 cfg S)) = length (system S)
   \<and> (\<forall>i < length (system S).
        erase_force_velocity (system (phase1 cfg S) ! i) = erase_force_velocity (system S ! i)
        \<and> x (system (phase1 cfg S) ! i) = x (system S ! i)
        \<and> y (system (phase1 cfg S) ! i) = y (system S ! i)
        \<and> z (system (phase1 cfg S) ! i) = z (system S ! i)
        \<and> system (phase1 cfg S) ! i = system (snd (compute1 cfg S i)) ! i)
   \<and> (SAVE_RATE cfg \<noteq> 0 \<and> system S \<noteq> [] \<longrightarrow>
        (\<exists>S' file'. animate py cfg ini (S, file) = Inr (S', file')
           \<and> system S' = system (phase2 cfg (phase1 cfg (S\<lparr>closeness := []\<rparr>)))))"
proof (intro conjI allI impI)
  show "phase1 cfg S = S\<lparr>system := system (phase1 cfg S)\<rparr>" by (rule phase1_rest)
  show "length (system (phase1 cfg S)) = length (system S)" by simp
next
  fix i assume i: "i < length (system S)"
  show e: "erase_force_velocity (system (phase1 cfg S) ! i) = erase_force_velocity (system S ! i)"
    by (rule phase1_frame [OF i])
  show "x (system (phase1 cfg S) ! i) = x (system S ! i)"
    "y (system (phase1 cfg S) ! i) = y (system S ! i)"
    "z (system (phase1 cfg S) ! i) = z (system S ! i)"
    using erase_x [OF e] by simp_all
  show "system (phase1 cfg S) ! i = system (snd (compute1 cfg S i)) ! i"
    by (rule phase1_nth [OF i])
next
  assume "SAVE_RATE cfg \<noteq> 0 \<and> system S \<noteq> []"
  then show "\<exists>S' file'. animate py cfg ini (S, file) = Inr (S', file')
           \<and> system S' = system (phase2 cfg (phase1 cfg (S\<lparr>closeness := []\<rparr>)))"
    by (simp add: animate_Inr Let_def)
qed

text \<open>The barrier on the two-body system.\<close>

theorem phase_barrier_witness:
  "x (system (phase1 demo_config pair_system) ! 0) = 0
   \<and> y (system (phase1 demo_config pair_system) ! 0) = 0
   \<and> z (system (phase1 demo_config pair_system) ! 0) = 0
   \<and> system (phase1 demo_config pair_system) ! 0 = system (snd (compute1 demo_config pair_system 0)) ! 0
   \<and> (\<exists>S' file'. animate demo_py demo_config demo_init (pair_system, []) = Inr (S', file')
         \<and> system S' = system (phase2 demo_config (phase1 demo_config (pair_system\<lparr>closeness := []\<rparr>))))"
proof -
  have len: "(0::nat) < length (system pair_system)" by (simp add: pair_bodies)
  have pos: "x (system pair_system ! 0) = 0" "y (system pair_system ! 0) = 0"
    "z (system pair_system ! 0) = 0"
    by (simp_all add: pair_bodies body_at_def Body_def zeroF_def)
  have run: "SAVE_RATE demo_config \<noteq> 0 \<and> system pair_system \<noteq> []"
    by (simp add: pair_bodies demo_config_def)
  note barrier = phase_barrier [of demo_config pair_system demo_py demo_init "[]"]
  from barrier len have frame:
    "x (system (phase1 demo_config pair_system) ! 0) = x (system pair_system ! 0)
     \<and> y (system (phase1 demo_config pair_system) ! 0) = y (system pair_system ! 0)
     \<and> z (system (phase1 demo_config pair_system) ! 0) = z (system pair_system ! 0)
     \<and> system (phase1 demo_config pair_system) ! 0
         = system (snd (compute1 demo_config pair_system 0)) ! 0"
    by blast
  from barrier run have step:
    "\<exists>S' file'. animate demo_py demo_config demo_init (pair_system, []) = Inr (S', file')
         \<and> system S' = system (phase2 demo_config (phase1 demo_config (pair_system\<lparr>closeness := []\<rparr>)))"
    by blast
  show ?thesis
    using frame [unfolded pos] step by blast
qed

lemma semi_implicit_euler_aux:
  assumes i: "i < length (system S)"
    and m: "mass (system S ! i) \<noteq> 0"
    and apart: "\<forall>j < length (system S). j \<noteq> i \<longrightarrow> \<not> same_place (system S ! j) (system S ! i)"
  shows "system (phase1 cfg S) ! i =
     (system S ! i)
       \<lparr>Fx := fst (net_force (GRAV_CONS cfg) (system S) i),
        Fy := fst (snd (net_force (GRAV_CONS cfg) (system S) i)),
        Fz := snd (snd (net_force (GRAV_CONS cfg) (system S) i)),
        Vx := Vx (system S ! i) + fst (net_force (GRAV_CONS cfg) (system S) i) * DELTA_T S / mass (system S ! i),
        Vy := Vy (system S ! i) + fst (snd (net_force (GRAV_CONS cfg) (system S) i)) * DELTA_T S / mass (system S ! i),
        Vz := Vz (system S ! i) + snd (snd (net_force (GRAV_CONS cfg) (system S) i)) * DELTA_T S / mass (system S ! i)\<rparr>"
  using i m by (simp add: phase1_nth compute1_apart [OF i apart] Let_def set_body_def)

lemma phase2_nth:
  "i < length (system S) \<Longrightarrow> system (phase2 cfg S) ! i = moved cfg (DELTA_T S) (system S ! i)"
  by (simp add: phase2_map)

section \<open>Coincident bodies\<close>

lemma cal_netforce_Inl: "cal_netforce G b ob = Inl e \<Longrightarrow> e = ZeroDivisionError \<and> same_place ob b"
  by (cases "same_place ob b") (simp_all add: cal_netforce_same_place cal_netforce_apart)

lemma cal_netforce_Inr:
  "cal_netforce G b ob = Inr b' \<Longrightarrow> \<not> same_place ob b \<and> (\<forall>o'. same_place o' b' = same_place o' b)"
  by (cases "same_place ob b") (auto simp: cal_netforce_same_place cal_netforce_apart)

lemma force_loop_raises:
  assumes "\<exists>ob \<in> set (others i ps). same_place ob b"
  shows "fst (force_loop G i b ps) = Some ZeroDivisionError"
  using assms
proof (induction ps arbitrary: b)
  case Nil
  then show ?case by simp
next
  case (Cons p ps)
  obtain j ob where p: "p = (j, ob)" by (cases p)
  show ?case
  proof (cases "i = j")
    case True
    with Cons p show ?thesis by auto
  next
    case False
    show ?thesis
    proof (cases "cal_netforce G b ob")
      case (Inl e)
      with cal_netforce_Inl [OF Inl] False p show ?thesis by simp
    next
      case (Inr b')
      note r = cal_netforce_Inr [OF Inr]
      from Cons.prems p False r have "\<exists>ob \<in> set (others i ps). same_place ob b'" by auto
      then have "fst (force_loop G i b' ps) = Some ZeroDivisionError" by (rule Cons.IH)
      with Inr False p show ?thesis by simp
    qed
  qed
qed

lemma zeroF_velocity: "zeroF a = zeroF b \<Longrightarrow> Vx a = Vx b \<and> Vy a = Vy b \<and> Vz a = Vz b"
proof -
  assume h: "zeroF a = zeroF b"
  have "Vx a = Vx (zeroF a)" "Vy a = Vy (zeroF a)" "Vz a = Vz (zeroF a)"
    by (simp_all add: zeroF_def)
  moreover have "Vx b = Vx (zeroF b)" "Vy b = Vy (zeroF b)" "Vz b = Vz (zeroF b)"
    by (simp_all add: zeroF_def)
  ultimately show ?thesis using h by simp
qed

lemma compute1_coincident:
  assumes i: "i < length (system S)" and j: "j < length (system S)" "j \<noteq> i"
    and same: "same_place (system S ! j) (system S ! i)"
  shows "fst (compute1 cfg S i) = Some ZeroDivisionError"
    and "Vx (system (snd (compute1 cfg S i)) ! i) = Vx (system S ! i)"
    and "Vy (system (snd (compute1 cfg S i)) ! i) = Vy (system S ! i)"
    and "Vz (system (snd (compute1 cfg S i)) ! i) = Vz (system S ! i)"
proof -
  let ?b0 = "zeroF (system S ! i)"
  let ?r = "force_loop (GRAV_CONS cfg) i ?b0 (enumerate_bodies (system S))"
  have "system S ! j \<in> set (others i (enumerate_bodies (system S)))"
    using j by (auto simp: others_enumerate)
  moreover have "same_place (system S ! j) ?b0"
    using same by (simp add: zeroF_def same_place_def)
  ultimately have e: "fst ?r = Some ZeroDivisionError"
    by (intro force_loop_raises) blast
  then obtain b1 where r: "?r = (Some ZeroDivisionError, b1)" by (cases ?r) simp
  have "zeroF b1 = zeroF ?b0"
    using force_loop_frame [of "GRAV_CONS cfg" i ?b0 "enumerate_bodies (system S)"] r by simp
  then have "zeroF b1 = zeroF (system S ! i)" by (simp add: zeroF_def)
  note v = zeroF_velocity [OF this]
  show "fst (compute1 cfg S i) = Some ZeroDivisionError"
    using r by (simp add: compute1_def)
  show "Vx (system (snd (compute1 cfg S i)) ! i) = Vx (system S ! i)"
    "Vy (system (snd (compute1 cfg S i)) ! i) = Vy (system S ! i)"
    "Vz (system (snd (compute1 cfg S i)) ! i) = Vz (system S ! i)"
    using r i v by (simp_all add: compute1_def set_body_def)
qed

lemma coincident_bodies:
  "system coincident_system =
     [body_at ''a'' 0 0 0 1 0 0 2 0, body_at ''b'' 0 0 0 0 0 0 3 0, body_at ''c'' 2 0 0 0 0 0 1 0]"
  by (simp add: coincident_system_def Asystem_def)

lemma coincident_run: "SAVE_RATE demo_config \<noteq> 0" "system coincident_system \<noteq> []"
  by (simp_all add: coincident_bodies demo_config_def)

lemma coincident_third_velocity:
  "Vx (system (phase1 demo_config (coincident_system\<lparr>closeness := []\<rparr>)) ! 2) = - (5 / 4)"
proof -
  let ?S = "coincident_system\<lparr>closeness := []\<rparr>"
  let ?bs = "system coincident_system"
  have sys: "system ?S = ?bs" by simp
  have len: "(2::nat) < length (system ?S)" by (simp add: coincident_bodies)
  have m: "mass (system ?S ! 2) \<noteq> 0"
    by (simp add: coincident_bodies body_at_def Body_def zeroF_def)
  have apart: "\<forall>j < length (system ?S). j \<noteq> 2 \<longrightarrow> \<not> same_place (system ?S ! j) (system ?S ! 2)"
    by (auto simp: coincident_bodies less_Suc_eq numeral_2_eq_2 numeral_3_eq_3 body_at_def Body_def
        zeroF_def same_place_def)
  have js: "filter (\<lambda>j. j \<noteq> 2) [0..<length ?bs] = [0, 1]"
    by (simp add: coincident_bodies upt_rec [of 0] upt_rec [of 1] upt_rec [of 2])
  have net: "fst (net_force (GRAV_CONS demo_config) ?bs 2) = - (5 / 4)"
    unfolding net_force_def Let_def js
    by (simp add: coincident_bodies body_at_def Body_def zeroF_def newton_force_def
        distance_between_def demo_config_def Let_def)
  have dt: "DELTA_T coincident_system = 1"
    by (simp add: coincident_system_def Asystem_def demo_config_def)
  have vm: "Vx (?bs ! 2) = 0" "mass (?bs ! 2) = 1"
    by (simp_all add: coincident_bodies body_at_def Body_def zeroF_def)
  show ?thesis
    unfolding semi_implicit_euler_aux [OF len m apart, of demo_config]
    by (simp add: net dt vm)
qed

text \<open>
  The step on that system returns instead of failing, and the velocity of the third body
  has changed: the step is neither rejected nor without effect.
\<close>

theorem coincident_step_counterexample:
  "\<not> isl (animate demo_py demo_config demo_init (coincident_system, []))
   \<and> Vx (system coincident_system ! 2) = 0
   \<and> Vx (system (fst (projr (animate demo_py demo_config demo_init (coincident_system, [])))) ! 2) = - (5 / 4)"
proof -
  have v0: "Vx (system coincident_system ! 2) = 0"
    by (simp add: coincident_bodies body_at_def Body_def zeroF_def)
  have len: "(2::nat) < length (system (phase1 demo_config (coincident_system\<lparr>closeness := []\<rparr>)))"
    by (simp add: coincident_bodies)
  have "Vx (system (phase2 demo_config (phase1 demo_config (coincident_system\<lparr>closeness := []\<rparr>))) ! 2)
      = - (5 / 4)"
    unfolding phase2_nth [OF len]
    using coincident_third_velocity by (simp add: moved_def cal_position_def Let_def)
  then show ?thesis
    using v0 by (simp add: animate_Inr [OF coincident_run] Let_def)
qed

section \<open>Collision scan and time step\<close>

lemma scan_pair_step:
  "scan_pair py bs i acc j =
     (if j < i
      then (near bs (i, j) \<or> fst acc,
            snd acc @ (if collided bs (i, j) then collision_text py bs (i, j) else []))
      else acc)"
  by (simp add: scan_pair_def near_def collided_def collision_text_def Let_def)

lemma inner_loop:
  "foldl (scan_pair py bs i) acc js =
     (fst acc \<or> (\<exists>j \<in> set js. j < i \<and> near bs (i, j)),
      snd acc @ concat (map (collision_text py bs)
                          (filter (collided bs) (map (\<lambda>j. (i, j)) (filter (\<lambda>j. j < i) js)))))"
proof (induction js arbitrary: acc)
  case Nil
  show ?case by simp
next
  case (Cons j js)
  show ?case
    unfolding foldl_Cons Cons.IH by (auto simp: scan_pair_step)
qed

lemma filter_less_upt: "i \<le> n \<Longrightarrow> filter (\<lambda>j. j < i) [0..<n] = [0..<i]"
proof (induction n)
  case 0
  then show ?case by simp
next
  case (Suc n)
  show ?case
  proof (cases "i = Suc n")
    case True
    then show ?thesis by (simp add: filter_id_conv)
  next
    case False
    with Suc show ?thesis by simp
  qed
qed

lemma outer_loop:
  assumes "\<forall>i \<in> set ks. i \<le> n"
  shows "foldl (\<lambda>acc i. foldl (scan_pair py bs i) acc [0..<n]) acc ks =
     (fst acc \<or> (\<exists>p \<in> set (concat (map (\<lambda>i. map (\<lambda>j. (i, j)) [0..<i]) ks)). near bs p),
      snd acc @ concat (map (collision_text py bs)
                          (filter (collided bs) (concat (map (\<lambda>i. map (\<lambda>j. (i, j)) [0..<i]) ks)))))"
  using assms
proof (induction ks arbitrary: acc)
  case Nil
  show ?case by simp
next
  case (Cons i ks)
  have i: "i \<le> n" using Cons.prems by simp
  have rest: "\<forall>i \<in> set ks. i \<le> n" using Cons.prems by simp
  have row: "foldl (scan_pair py bs i) acc [0..<n] =
     (fst acc \<or> (\<exists>j \<in> set [0..<i]. near bs (i, j)),
      snd acc @ concat (map (collision_text py bs) (filter (collided bs) (map (\<lambda>j. (i, j)) [0..<i]))))"
    using i by (auto simp: inner_loop filter_less_upt)
  show ?case
    unfolding foldl_Cons row Cons.IH [OF rest] by auto
qed

lemma scan_pairs:
  "scan py bs =
     (\<exists>p \<in> set (pairs (length bs)). near bs p,
      concat (map (collision_text py bs) (filter (collided bs) (pairs (length bs)))))"
  unfolding scan_def pairs_def by (subst outer_loop [where n = "length bs"]) simp_all

lemma set_pairs: "set (pairs n) = {(i, j). j < i \<and> i < n}"
  by (auto simp: pairs_def)

lemma distinct_pairs: "distinct (pairs n)"
  unfolding pairs_def
  by (rule distinct_concat) (auto simp: distinct_map inj_on_def dest: map_eq_imp_length_eq)

lemma if_collision_collisions:
  "collisions (fst (if_collision py cfg ini S file)) = snd (scan py (system S))"
  by (simp add: if_collision_def Let_def split: prod.splits)

text \<open>
  Claim C5. The scan of \<^verbatim>\<open>if_collision\<close> visits the pairs \<open>(i, j)\<close> with \<open>j < i\<close>, each
  unordered pair exactly once. The string of collisions is the concatenation, in scan
  order, of one entry for each pair whose centre distance is at most the sum of the
  radii, and of nothing else; the flag is set exactly when some pair is within 30 times
  the sum of its radii (the multiplier is the literal 30 of the source).
\<close>

theorem if_collision_classifies:
  "distinct (pairs (length (system S)))
   \<and> set (pairs (length (system S))) = {(i, j). j < i \<and> i < length (system S)}
   \<and> scan py (system S) =
        (\<exists>p \<in> set (pairs (length (system S))). near (system S) p,
         concat (map (collision_text py (system S))
                   (filter (collided (system S)) (pairs (length (system S))))))
   \<and> collisions (fst (if_collision py cfg ini S file)) =
        concat (map (collision_text py (system S))
                  (filter (collided (system S)) (pairs (length (system S)))))"
  by (simp add: distinct_pairs set_pairs if_collision_collisions scan_pairs)

lemma sqrt_10000: "sqrt 10000 = 100"
  by (rule real_sqrt_unique) simp_all

lemma sqrt_9604: "sqrt 9604 = 98"
  by (rule real_sqrt_unique) simp_all

lemma touching_bodies:
  "system touching_system =
     [body_at ''a'' 0 0 0 0 0 0 1 1, body_at ''b'' 2 0 0 0 0 0 1 1, body_at ''c'' 100 0 0 0 0 0 1 1]"
  by (simp add: touching_system_def Asystem_def)

lemma touching_pairs: "pairs (length (system touching_system)) = [(Suc 0, 0), (2, 0), (2, Suc 0)]"
  by (simp add: touching_bodies pairs_def upt_rec [of 0] upt_rec [of 1] upt_rec [of 2])

lemma touching_classes:
  "collided (system touching_system) (Suc 0, 0)" "near (system touching_system) (Suc 0, 0)"
  "\<not> collided (system touching_system) (2, 0)" "\<not> near (system touching_system) (2, 0)"
  "\<not> collided (system touching_system) (2, Suc 0)" "\<not> near (system touching_system) (2, Suc 0)"
  by (simp_all add: touching_bodies collided_def near_def distance_between_def body_at_def Body_def
      zeroF_def sqrt_10000 sqrt_9604)

text \<open>
  Three bodies of radius 1 on a line: the first two at distance exactly 2, the third far
  away. One collision is recorded, for the touching pair.
\<close>

theorem if_collision_classifies_witness:
  "scan demo_py (system touching_system) = (True, ''b and a, '')
   \<and> collisions (fst (if_collision demo_py demo_config demo_init touching_system [])) = ''b and a, ''"
proof -
  have ev: "collision_text demo_py (system touching_system) (Suc 0, 0) = ''b and a, ''"
    by (simp add: collision_text_def touching_bodies body_at_def Body_def zeroF_def)
  show ?thesis
    using if_collision_classifies [of touching_system demo_py demo_config demo_init "[]"]
    by (simp add: touching_pairs touching_classes ev)
qed

lemma collided_near: "collided bs p \<Longrightarrow> near bs p"
proof -
  assume c: "collided bs p"
  have "0 \<le> distance_between (bs ! fst p) (bs ! snd p)"
    by (simp add: distance_between_def)
  with c show ?thesis by (simp add: collided_def near_def)
qed

lemma if_collision_DELTA_T:
  "DELTA_T (fst (if_collision py cfg ini S file)) =
     (if \<not> bool_T ini then 0
      else if fst (scan py (system S)) then FINE_DELTA_T cfg
      else Definition.NORM_DELTA_T ini)"
  by (simp add: if_collision_def Let_def split: prod.splits)

lemma if_collision_file:
  "snd (if_collision py cfg ini S file) =
     (if bool_T ini \<and> fst (scan py (system S))
      then file @ [write_to_file py (fst (if_collision py cfg ini S file))]
      else file)"
  by (simp add: if_collision_def Let_def split: prod.splits)

lemma scan_flag:
  "fst (scan py bs) \<longleftrightarrow> (\<exists>p \<in> set (pairs (length bs)). near bs p \<or> collided bs p)"
  using collided_near by (auto simp: scan_pairs)

text \<open>
  Claim C6. After the scan, when the simulation is paused the step becomes 0; otherwise it
  becomes the fine step when some pair is near or collided, and a snapshot is written
  at once, and the normal step of \<^verbatim>\<open>init\<close> when no pair is. A step that returns leaves
  the system with the time step chosen from the positions it ends with.
\<close>

theorem time_step_selection:
  "DELTA_T (fst (if_collision py cfg ini S file)) =
     (if \<not> bool_T ini then 0
      else if (\<exists>p \<in> set (pairs (length (system S))). near (system S) p \<or> collided (system S) p)
           then FINE_DELTA_T cfg
      else Definition.NORM_DELTA_T ini)
   \<and> snd (if_collision py cfg ini S file) =
     (if bool_T ini
         \<and> (\<exists>p \<in> set (pairs (length (system S))). near (system S) p \<or> collided (system S) p)
      then file @ [write_to_file py (fst (if_collision py cfg ini S file))]
      else file)
   \<and> (SAVE_RATE cfg \<noteq> 0 \<and> system S \<noteq> [] \<longrightarrow>
        (\<exists>S' file'. animate py cfg ini (S, file) = Inr (S', file')
           \<and> DELTA_T S' =
               (if \<not> bool_T ini then 0
                else if (\<exists>p \<in> set (pairs (length (system S'))). near (system S') p \<or> collided (system S') p)
                     then FINE_DELTA_T cfg
                else Definition.NORM_DELTA_T ini)))"
proof (intro conjI impI)
  show "DELTA_T (fst (if_collision py cfg ini S file)) =
     (if \<not> bool_T ini then 0
      else if (\<exists>p \<in> set (pairs (length (system S))). near (system S) p \<or> collided (system S) p)
           then FINE_DELTA_T cfg
      else Definition.NORM_DELTA_T ini)"
    by (simp only: if_collision_DELTA_T scan_flag)
  show "snd (if_collision py cfg ini S file) =
     (if bool_T ini
         \<and> (\<exists>p \<in> set (pairs (length (system S))). near (system S) p \<or> collided (system S) p)
      then file @ [write_to_file py (fst (if_collision py cfg ini S file))]
      else file)"
    by (subst if_collision_file) (simp only: scan_flag)
next
  assume "SAVE_RATE cfg \<noteq> 0 \<and> system S \<noteq> []"
  then have ok: "SAVE_RATE cfg \<noteq> 0" "system S \<noteq> []" by simp_all
  let ?S3 = "phase2 cfg (phase1 cfg (S\<lparr>closeness := []\<rparr>))"
  let ?file1 = "if count S mod SAVE_RATE cfg = 0 then file @ [write_to_file py (S\<lparr>closeness := []\<rparr>)] else file"
  let ?r = "if_collision py cfg ini ?S3 ?file1"
  let ?S' = "(fst ?r)\<lparr>count := count S + 1\<rparr>"
  have a: "animate py cfg ini (S, file) = Inr (?S', snd ?r)"
    by (simp add: animate_Inr [OF ok] Let_def)
  have sys: "system ?S' = system ?S3" by simp
  have "DELTA_T ?S' = DELTA_T (fst ?r)" by simp
  also have "\<dots> = (if \<not> bool_T ini then 0
                else if (\<exists>p \<in> set (pairs (length (system ?S3))). near (system ?S3) p \<or> collided (system ?S3) p)
                     then FINE_DELTA_T cfg
                else Definition.NORM_DELTA_T ini)"
    by (simp only: if_collision_DELTA_T scan_flag)
  finally have "DELTA_T ?S' = (if \<not> bool_T ini then 0
                else if (\<exists>p \<in> set (pairs (length (system ?S'))). near (system ?S') p \<or> collided (system ?S') p)
                     then FINE_DELTA_T cfg
                else Definition.NORM_DELTA_T ini)"
    by (simp only: sys)
  with a show "\<exists>S' file'. animate py cfg ini (S, file) = Inr (S', file')
           \<and> DELTA_T S' =
               (if \<not> bool_T ini then 0
                else if (\<exists>p \<in> set (pairs (length (system S'))). near (system S') p \<or> collided (system S') p)
                     then FINE_DELTA_T cfg
                else Definition.NORM_DELTA_T ini)"
    by blast
qed

lemma pair_far: "\<not> (\<exists>p \<in> set (pairs (length (system pair_system))).
    near (system pair_system) p \<or> collided (system pair_system) p)"
  by (simp add: pair_bodies pairs_def upt_rec [of 0] upt_rec [of 1] near_def collided_def
      distance_between_def body_at_def Body_def zeroF_def)

lemma touching_near: "\<exists>p \<in> set (pairs (length (system touching_system))).
    near (system touching_system) p \<or> collided (system touching_system) p"
  by (simp add: touching_pairs touching_classes)

text \<open>The three cases: a near pair, a paused simulation, and two bodies far apart.\<close>

theorem time_step_selection_witness:
  "DELTA_T (fst (if_collision demo_py demo_config demo_init touching_system [])) = 1 / 2
   \<and> snd (if_collision demo_py demo_config demo_init touching_system [])
       = [write_to_file demo_py (fst (if_collision demo_py demo_config demo_init touching_system []))]
   \<and> DELTA_T (fst (if_collision demo_py demo_config paused_init touching_system [])) = 0
   \<and> snd (if_collision demo_py demo_config paused_init touching_system []) = []
   \<and> DELTA_T (fst (if_collision demo_py demo_config demo_init pair_system [])) = 1
   \<and> snd (if_collision demo_py demo_config demo_init pair_system []) = []
   \<and> (\<exists>S' file'. animate demo_py demo_config demo_init (touching_system, []) = Inr (S', file')
           \<and> DELTA_T S' =
               (if \<not> bool_T demo_init then 0
                else if (\<exists>p \<in> set (pairs (length (system S'))). near (system S') p \<or> collided (system S') p)
                     then FINE_DELTA_T demo_config
                else Definition.NORM_DELTA_T demo_init))"
proof -
  have run: "SAVE_RATE demo_config \<noteq> 0 \<and> system touching_system \<noteq> []"
    by (simp add: touching_bodies demo_config_def)
  have c: "bool_T demo_init" "\<not> bool_T paused_init" "FINE_DELTA_T demo_config = 1 / 2"
    "Definition.NORM_DELTA_T demo_init = 1"
    by (simp_all add: demo_init_def paused_init_def demo_config_def)
  note t1 = time_step_selection [of demo_py demo_config demo_init touching_system "[]"]
  note t2 = time_step_selection [of demo_py demo_config paused_init touching_system "[]"]
  note t3 = time_step_selection [of demo_py demo_config demo_init pair_system "[]"]
  from t1 run have step: "\<exists>S' file'. animate demo_py demo_config demo_init (touching_system, []) = Inr (S', file')
           \<and> DELTA_T S' =
               (if \<not> bool_T demo_init then 0
                else if (\<exists>p \<in> set (pairs (length (system S'))). near (system S') p \<or> collided (system S') p)
                     then FINE_DELTA_T demo_config
                else Definition.NORM_DELTA_T demo_init)"
    by blast
  have fine: "DELTA_T (fst (if_collision demo_py demo_config demo_init touching_system [])) = 1 / 2"
    "snd (if_collision demo_py demo_config demo_init touching_system [])
       = [write_to_file demo_py (fst (if_collision demo_py demo_config demo_init touching_system []))]"
    using t1 touching_near c by simp_all
  have paused: "DELTA_T (fst (if_collision demo_py demo_config paused_init touching_system [])) = 0"
    "snd (if_collision demo_py demo_config paused_init touching_system []) = []"
    using t2 c by simp_all
  have normal: "DELTA_T (fst (if_collision demo_py demo_config demo_init pair_system [])) = 1"
    "snd (if_collision demo_py demo_config demo_init pair_system []) = []"
    using t3 pair_far c by simp_all
  show ?thesis
    by (intro conjI fine paused normal step)
qed

section \<open>Trajectories\<close>

lemma erase_coord:
  "erase_force_velocity a = erase_force_velocity b \<Longrightarrow> coord a = coord b"
proof -
  assume h: "erase_force_velocity a = erase_force_velocity b"
  have "coord a = coord (erase_force_velocity a)" "coord b = coord (erase_force_velocity b)"
    by (simp_all add: erase_force_velocity_def)
  with h show ?thesis by simp
qed

lemma phase1_coord:
  "i < length (system S) \<Longrightarrow> coord (system (phase1 cfg S) ! i) = coord (system S ! i)"
  by (rule erase_coord [OF phase1_frame])

lemma moved_coord:
  "coord (moved cfg dt b) = coord b @ [(x (moved cfg dt b), y (moved cfg dt b), z (moved cfg dt b))]"
  by (simp add: moved_def cal_position_def Let_def)

lemma animate_Inr_D:
  assumes "animate py cfg ini (S, file) = Inr (S', file')"
  shows "SAVE_RATE cfg \<noteq> 0" "system S \<noteq> []"
proof -
  show "SAVE_RATE cfg \<noteq> 0"
    using assms by (auto simp: animate_def Let_def split: if_splits)
  have "length (system (phase2 cfg (phase1 cfg (S\<lparr>closeness := []\<rparr>)))) = length (system S)"
    by simp
  then have "system (phase2 cfg (phase1 cfg (S\<lparr>closeness := []\<rparr>))) = [] \<longleftrightarrow> system S = []"
    by (metis length_0_conv)
  then show "system S \<noteq> []"
    using assms by (auto simp: animate_def Let_def split: if_splits)
qed

lemma animate_step:
  assumes "animate py cfg ini (S, file) = Inr (S', file')"
  shows "system S' = system (phase2 cfg (phase1 cfg (S\<lparr>closeness := []\<rparr>)))"
    and "count S' = count S + 1"
    and "closeness S' = []"
proof -
  note ok = animate_Inr_D [OF assms]
  from assms have "S' = (fst (if_collision py cfg ini (phase2 cfg (phase1 cfg (S\<lparr>closeness := []\<rparr>)))
      (if count S mod SAVE_RATE cfg = 0 then file @ [write_to_file py (S\<lparr>closeness := []\<rparr>)] else file)))
        \<lparr>count := count S + 1\<rparr>"
    by (simp add: animate_Inr [OF ok] Let_def)
  then show "system S' = system (phase2 cfg (phase1 cfg (S\<lparr>closeness := []\<rparr>)))"
    and "count S' = count S + 1" and "closeness S' = []"
    by simp_all
qed

lemma animate_coord:
  assumes "animate py cfg ini (S, file) = Inr (S', file')" and i: "i < length (system S)"
  shows "coord (system S' ! i)
      = coord (system S ! i) @ [(x (system S' ! i), y (system S' ! i), z (system S' ! i))]"
proof -
  let ?S1 = "S\<lparr>closeness := []\<rparr>"
  have i1: "i < length (system ?S1)" using i by simp
  have "system S' ! i = moved cfg (DELTA_T (phase1 cfg ?S1)) (system (phase1 cfg ?S1) ! i)"
    unfolding animate_step(1) [OF assms(1)] using i by (simp add: phase2_nth)
  then show ?thesis
    using phase1_coord [OF i1, of cfg] by (simp add: moved_coord)
qed

lemma animate_length:
  "animate py cfg ini (S, file) = Inr (S', file') \<Longrightarrow> length (system S') = length (system S)"
  by (simp add: animate_step(1))

lemma run_trajectories:
  assumes "run py cfg inis (S, out) = Inr (S', out')"
    and "\<forall>b \<in> set (system S). length (coord b) = k"
  shows "length (system S') = length (system S)
     \<and> (\<forall>b \<in> set (system S'). length (coord b) = k + length inis)
     \<and> count S' = count S + int (length inis)"
  using assms
proof (induction inis arbitrary: S out k)
  case Nil
  then show ?case by simp
next
  case (Cons ini inis)
  from Cons.prems(1) obtain S1 out1 where a: "animate py cfg ini (S, out) = Inr (S1, out1)"
    and r: "run py cfg inis (S1, out1) = Inr (S', out')"
    by (cases "animate py cfg ini (S, out)") auto
  have len: "length (system S1) = length (system S)" by (rule animate_length [OF a])
  have "\<forall>b \<in> set (system S1). length (coord b) = Suc k"
  proof
    fix b assume "b \<in> set (system S1)"
    then obtain i where i: "i < length (system S1)" "b = system S1 ! i"
      by (auto simp: in_set_conv_nth)
    with len have "coord b = coord (system S ! i) @ [(x b, y b, z b)]"
      using animate_coord [OF a] by simp
    moreover have "length (coord (system S ! i)) = k"
      using Cons.prems(2) i len by simp
    ultimately show "length (coord b) = Suc k" by simp
  qed
  from Cons.IH [OF r this] len animate_step(2) [OF a] show ?case by simp
qed

lemma from_end_Inr: "i \<le> length xs \<Longrightarrow> \<exists>v. from_end xs i = Inr v"
  by (simp add: from_end_def)

lemma sample_distance_Inr:
  assumes "i \<le> length (coord body1)" "i \<le> length (coord body2)"
  shows "\<exists>d. sample_distance body1 body2 i = Inr d"
proof -
  obtain v1 where v1: "from_end (coord body1) i = Inr v1" using from_end_Inr [OF assms(1)] by blast
  obtain v2 where v2: "from_end (coord body2) i = Inr v2" using from_end_Inr [OF assms(2)] by blast
  show ?thesis
    by (cases v1; cases v2) (simp add: sample_distance_def v1 v2)
qed

lemma close_calc_in_bounds:
  assumes "length (coord body1) = length (coord body2)"
  shows "close_calc py S body1 body2 \<noteq> Inl IndexError"
proof (cases "length (coord body1) > 2")
  case False
  then show ?thesis by (simp add: close_calc_def)
next
  case True
  then have l1: "1 \<le> length (coord body1)" "2 \<le> length (coord body1)" "3 \<le> length (coord body1)"
    by simp_all
  with assms have l2: "1 \<le> length (coord body2)" "2 \<le> length (coord body2)" "3 \<le> length (coord body2)"
    by simp_all
  obtain d0 where d0: "sample_distance body1 body2 1 = Inr d0"
    using sample_distance_Inr [OF l1(1) l2(1)] by blast
  obtain d1 where d1: "sample_distance body1 body2 2 = Inr d1"
    using sample_distance_Inr [OF l1(2) l2(2)] by blast
  obtain d2 where d2: "sample_distance body1 body2 3 = Inr d2"
    using sample_distance_Inr [OF l1(3) l2(3)] by blast
  show ?thesis
    using True d0 d1 d2
    by (cases "ident body1"; cases "ident body2") (simp_all add: close_calc_def)
qed

lemma run_snoc:
  assumes "run py cfg inis (S, out) = Inr (S1, out1)"
    and "animate py cfg ini (S1, out1) = Inr (S2, out2)"
  shows "run py cfg (inis @ [ini]) (S, out) = Inr (S2, out2)"
  using assms
proof (induction inis arbitrary: S out)
  case Nil
  then show ?case by simp
next
  case (Cons a inis)
  then show ?case by (cases "animate py cfg a (S, out)") auto
qed

text \<open>
  Claim C10. Let a system be constructed (every trajectory empty), let a run of any
  number of steps lead to the state \<open>S1\<close>, and let one more step lead to \<open>S2\<close>. In \<open>S1\<close>
  every trajectory has as many samples as steps were taken, the step counter has
  advanced by that number, and the step to \<open>S2\<close> appends exactly one sample, the new
  position, to every trajectory. So in \<open>S1\<close> a body has more than two samples whenever
  another has, and \<^verbatim>\<open>close_calc\<close>, which tests the length of the first trajectory only,
  never reads the second one out of range.
\<close>

theorem trajectories_same_length:
  assumes "\<forall>b \<in> set (system S). coord b = []"
    and "run py cfg inis (S, file) = Inr (S1, file1)"
    and "animate py cfg ini (S1, file1) = Inr (S2, file2)"
  shows "length (system S1) = length (system S)
     \<and> (\<forall>b \<in> set (system S1). length (coord b) = length inis)
     \<and> count S1 = count S + int (length inis)
     \<and> (\<forall>i < length (system S1).
          coord (system S2 ! i)
            = coord (system S1 ! i) @ [(x (system S2 ! i), y (system S2 ! i), z (system S2 ! i))])
     \<and> length (system S2) = length (system S1)
     \<and> (\<forall>b \<in> set (system S2). length (coord b) = length inis + 1)
     \<and> (\<forall>i < length (system S1). \<forall>j < length (system S1).
          (length (coord (system S1 ! i)) > 2 \<longrightarrow> length (coord (system S1 ! j)) > 2)
          \<and> close_calc py S1 (system S1 ! i) (system S1 ! j) \<noteq> Inl IndexError)"
proof -
  have fresh: "\<forall>b \<in> set (system S). length (coord b) = 0" using assms(1) by simp
  note r1 = run_trajectories [OF assms(2) fresh]
  have "run py cfg (inis @ [ini]) (S, file) = Inr (S2, file2)"
    by (rule run_snoc [OF assms(2,3)])
  note r2 = run_trajectories [OF this fresh]
  have same: "length (coord (system S1 ! i)) = length (coord (system S1 ! j))"
    if "i < length (system S1)" "j < length (system S1)" for i j
    using r1 that by simp
  show ?thesis
    using r1 r2 animate_coord [OF assms(3)] animate_length [OF assms(3)] same
      close_calc_in_bounds [of _ _ py S1]
    by auto
qed

text \<open>One step, then a second one, on the two-body system.\<close>

theorem trajectories_same_length_witness:
  "\<exists>S1 file1 S2 file2.
     run demo_py demo_config [demo_init] (pair_system, []) = Inr (S1, file1)
     \<and> animate demo_py demo_config demo_init (S1, file1) = Inr (S2, file2)
     \<and> length (system S1) = 2
     \<and> length (coord (system S1 ! 0)) = 1 \<and> length (coord (system S1 ! 1)) = 1
     \<and> count S1 = 1
     \<and> length (coord (system S2 ! 0)) = 2 \<and> length (coord (system S2 ! 1)) = 2
     \<and> close_calc demo_py S1 (system S1 ! 0) (system S1 ! 1) \<noteq> Inl IndexError"
proof -
  have ok: "SAVE_RATE demo_config \<noteq> 0" "system pair_system \<noteq> []"
    by (simp_all add: demo_config_def pair_bodies)
  obtain S1 file1 where a1: "animate demo_py demo_config demo_init (pair_system, []) = Inr (S1, file1)"
    using animate_Inr [OF ok, of demo_py demo_init "[]"] by (simp add: Let_def)
  have len1: "length (system S1) = 2"
    using animate_length [OF a1] by (simp add: pair_bodies)
  then have ne1: "system S1 \<noteq> []" by auto
  obtain S2 file2 where a2: "animate demo_py demo_config demo_init (S1, file1) = Inr (S2, file2)"
    using animate_Inr [OF ok(1) ne1, of demo_py demo_init file1] by (simp add: Let_def)
  have r: "run demo_py demo_config [demo_init] (pair_system, []) = Inr (S1, file1)"
    using a1 by simp
  have fresh: "\<forall>b \<in> set (system pair_system). coord b = []"
    by (simp add: pair_bodies body_at_def Body_def zeroF_def)
  have c0: "count pair_system = 0" by (simp add: pair_system_def Asystem_def)
  note t = trajectories_same_length [OF fresh r a2]
  have len2: "length (system S2) = 2" using t len1 by simp
  have in1: "system S1 ! 0 \<in> set (system S1)" "system S1 ! 1 \<in> set (system S1)"
    using len1 by simp_all
  have in2: "system S2 ! 0 \<in> set (system S2)" "system S2 ! 1 \<in> set (system S2)"
    using len2 by simp_all
  have "length (coord (system S1 ! 0)) = 1" "length (coord (system S1 ! 1)) = 1"
    "count S1 = 1"
    "length (coord (system S2 ! 0)) = 2" "length (coord (system S2 ! 1)) = 2"
    "close_calc demo_py S1 (system S1 ! 0) (system S1 ! 1) \<noteq> Inl IndexError"
    using t in1 in2 len1 c0 by simp_all
  with r a2 len1 show ?thesis by blast
qed

section \<open>Momentum\<close>

lemma antisym_double_sum:
  fixes f :: "nat \<Rightarrow> nat \<Rightarrow> real"
  assumes anti: "\<And>i j. f j i = - f i j"
  shows "(\<Sum>i<n. \<Sum>j \<in> {..<n} - {i}. f i j) = 0"
proof -
  let ?g = "\<lambda>i j. if i = j then 0 else f i j"
  have inner: "(\<Sum>j \<in> {..<n} - {i}. f i j) = (\<Sum>j<n. ?g i j)" for i
  proof -
    have "(\<Sum>j<n. ?g i j) = (\<Sum>j \<in> {..<n} - {i}. ?g i j)"
      by (rule sum.mono_neutral_right) auto
    also have "\<dots> = (\<Sum>j \<in> {..<n} - {i}. f i j)"
      by (rule sum.cong) auto
    finally show ?thesis by simp
  qed
  let ?S = "\<Sum>i<n. \<Sum>j<n. ?g i j"
  have "?S = (\<Sum>j<n. \<Sum>i<n. ?g i j)" by (rule sum.swap)
  also have "\<dots> = (\<Sum>j<n. \<Sum>i<n. - ?g j i)"
  proof (intro sum.cong refl)
    fix j i
    show "?g i j = - ?g j i"
    proof (cases "i = j")
      case True
      then show ?thesis by simp
    next
      case False
      then show ?thesis using anti [of j i] by simp
    qed
  qed
  also have "\<dots> = - ?S"
    by (simp add: sum_negf)
  finally have "?S = 0" by simp
  then show ?thesis by (simp only: inner)
qed

lemma flip_difference:
  fixes m p q d :: real
  shows "m * ((p - q) / d) = - (m * ((q - p) / d))"
proof -
  have "p - q = - (q - p)" by simp
  then have "(p - q) / d = - ((q - p) / d)" by (simp only: minus_divide_left)
  then show ?thesis by (simp only: mult_minus_right)
qed

lemma newton_force_antisym:
  "fst (newton_force G b a) = - fst (newton_force G a b)"
  "fst (snd (newton_force G b a)) = - fst (snd (newton_force G a b))"
  "snd (snd (newton_force G b a)) = - snd (snd (newton_force G a b))"
proof -
  have d: "distance_between a b = distance_between b a" by (rule distance_between_commute)
  have mm: "G * mass b * mass a = G * mass a * mass b" by simp
  show "fst (newton_force G b a) = - fst (newton_force G a b)"
    "fst (snd (newton_force G b a)) = - fst (snd (newton_force G a b))"
    "snd (snd (newton_force G b a)) = - snd (snd (newton_force G a b))"
    unfolding newton_force_def Let_def d mm
    by (simp_all only: fst_conv snd_conv flip_difference [of _ "x a" "x b"]
        flip_difference [of _ "y a" "y b"] flip_difference [of _ "z a" "z b"])
qed

lemma net_force_sum:
  "fst (net_force G bs i) = (\<Sum>j \<in> {..<length bs} - {i}. fst (newton_force G (bs ! i) (bs ! j)))"
  "fst (snd (net_force G bs i)) = (\<Sum>j \<in> {..<length bs} - {i}. fst (snd (newton_force G (bs ! i) (bs ! j))))"
  "snd (snd (net_force G bs i)) = (\<Sum>j \<in> {..<length bs} - {i}. snd (snd (newton_force G (bs ! i) (bs ! j))))"
proof -
  have d: "distinct (filter (\<lambda>j. j \<noteq> i) [0..<length bs])" by simp
  have s: "set (filter (\<lambda>j. j \<noteq> i) [0..<length bs]) = {..<length bs} - {i}" by auto
  show "fst (net_force G bs i) = (\<Sum>j \<in> {..<length bs} - {i}. fst (newton_force G (bs ! i) (bs ! j)))"
    "fst (snd (net_force G bs i)) = (\<Sum>j \<in> {..<length bs} - {i}. fst (snd (newton_force G (bs ! i) (bs ! j))))"
    "snd (snd (net_force G bs i)) = (\<Sum>j \<in> {..<length bs} - {i}. snd (snd (newton_force G (bs ! i) (bs ! j))))"
    unfolding net_force_def Let_def
    by (simp_all only: fst_conv snd_conv sum_list_distinct_conv_sum_set [OF d] s)
qed

lemma net_force_total:
  "(\<Sum>i<length bs. fst (net_force G bs i)) = 0"
  "(\<Sum>i<length bs. fst (snd (net_force G bs i))) = 0"
  "(\<Sum>i<length bs. snd (snd (net_force G bs i))) = 0"
  unfolding net_force_sum
  by (rule antisym_double_sum, rule newton_force_antisym)+

lemma sum_list_map_nth: "sum_list (map g xs) = (\<Sum>i<length xs. g (xs ! i))"
proof -
  have "sum_list (map g xs) = (\<Sum>i = 0..<length (map g xs). map g xs ! i)"
    by (rule sum_list_sum_nth)
  also have "\<dots> = (\<Sum>i<length xs. g (xs ! i))"
    by (intro sum.cong) (auto simp: atLeast0LessThan)
  finally show ?thesis .
qed

lemma phase1_momentum:
  assumes apart: "pairwise_apart (system S)"
    and masses: "\<forall>b \<in> set (system S). mass b \<noteq> 0"
  shows "momentum (system (phase1 cfg S)) = momentum (system S)"
proof -
  let ?bs = "system S" and ?T = "system (phase1 cfg S)" and ?G = "GRAV_CONS cfg"
  have body: "?T ! i = (?bs ! i)
       \<lparr>Fx := fst (net_force ?G ?bs i),
        Fy := fst (snd (net_force ?G ?bs i)),
        Fz := snd (snd (net_force ?G ?bs i)),
        Vx := Vx (?bs ! i) + fst (net_force ?G ?bs i) * DELTA_T S / mass (?bs ! i),
        Vy := Vy (?bs ! i) + fst (snd (net_force ?G ?bs i)) * DELTA_T S / mass (?bs ! i),
        Vz := Vz (?bs ! i) + snd (snd (net_force ?G ?bs i)) * DELTA_T S / mass (?bs ! i)\<rparr>"
    if i: "i < length ?bs" for i
  proof (rule semi_implicit_euler_aux [OF i])
    show "mass (?bs ! i) \<noteq> 0" using masses i by simp
    show "\<forall>j<length ?bs. j \<noteq> i \<longrightarrow> \<not> same_place (?bs ! j) (?bs ! i)"
      using apart i by (simp add: pairwise_apart_def)
  qed
  have m: "mass (?bs ! i) \<noteq> 0" if "i < length ?bs" for i using masses that by simp
  have px: "mass (?T ! i) * Vx (?T ! i) = mass (?bs ! i) * Vx (?bs ! i) + DELTA_T S * fst (net_force ?G ?bs i)"
    if "i < length ?bs" for i
    using m [OF that] by (simp add: body [OF that] distrib_left)
  have py: "mass (?T ! i) * Vy (?T ! i) = mass (?bs ! i) * Vy (?bs ! i) + DELTA_T S * fst (snd (net_force ?G ?bs i))"
    if "i < length ?bs" for i
    using m [OF that] by (simp add: body [OF that] distrib_left)
  have pz: "mass (?T ! i) * Vz (?T ! i) = mass (?bs ! i) * Vz (?bs ! i) + DELTA_T S * snd (snd (net_force ?G ?bs i))"
    if "i < length ?bs" for i
    using m [OF that] by (simp add: body [OF that] distrib_left)
  have "(\<Sum>i<length ?bs. mass (?T ! i) * Vx (?T ! i))
      = (\<Sum>i<length ?bs. mass (?bs ! i) * Vx (?bs ! i) + DELTA_T S * fst (net_force ?G ?bs i))"
    by (intro sum.cong refl) (simp add: px)
  also have "\<dots> = (\<Sum>i<length ?bs. mass (?bs ! i) * Vx (?bs ! i))"
    by (simp add: sum.distrib sum_distrib_left [symmetric] net_force_total)
  finally have sx: "(\<Sum>i<length ?bs. mass (?T ! i) * Vx (?T ! i))
      = (\<Sum>i<length ?bs. mass (?bs ! i) * Vx (?bs ! i))" .
  have "(\<Sum>i<length ?bs. mass (?T ! i) * Vy (?T ! i))
      = (\<Sum>i<length ?bs. mass (?bs ! i) * Vy (?bs ! i) + DELTA_T S * fst (snd (net_force ?G ?bs i)))"
    by (intro sum.cong refl) (simp add: py)
  also have "\<dots> = (\<Sum>i<length ?bs. mass (?bs ! i) * Vy (?bs ! i))"
    by (simp add: sum.distrib sum_distrib_left [symmetric] net_force_total)
  finally have sy: "(\<Sum>i<length ?bs. mass (?T ! i) * Vy (?T ! i))
      = (\<Sum>i<length ?bs. mass (?bs ! i) * Vy (?bs ! i))" .
  have "(\<Sum>i<length ?bs. mass (?T ! i) * Vz (?T ! i))
      = (\<Sum>i<length ?bs. mass (?bs ! i) * Vz (?bs ! i) + DELTA_T S * snd (snd (net_force ?G ?bs i)))"
    by (intro sum.cong refl) (simp add: pz)
  also have "\<dots> = (\<Sum>i<length ?bs. mass (?bs ! i) * Vz (?bs ! i))"
    by (simp add: sum.distrib sum_distrib_left [symmetric] net_force_total)
  finally have sz: "(\<Sum>i<length ?bs. mass (?T ! i) * Vz (?T ! i))
      = (\<Sum>i<length ?bs. mass (?bs ! i) * Vz (?bs ! i))" .
  show ?thesis
    unfolding momentum_def sum_list_map_nth using sx sy sz by simp
qed

lemma moved_velocity [simp]:
  "Vx (moved cfg dt b) = Vx b" "Vy (moved cfg dt b) = Vy b" "Vz (moved cfg dt b) = Vz b"
  "mass (moved cfg dt b) = mass b"
  by (simp_all add: moved_def cal_position_def Let_def)

lemma phase2_momentum: "momentum (system (phase2 cfg S)) = momentum (system S)"
  by (simp add: phase2_map momentum_def comp_def)

lemma erase_mass: "erase_force_velocity a = erase_force_velocity b \<Longrightarrow> mass a = mass b"
proof -
  assume h: "erase_force_velocity a = erase_force_velocity b"
  have "mass a = mass (erase_force_velocity a)" "mass b = mass (erase_force_velocity b)"
    by (simp_all add: erase_force_velocity_def)
  with h show ?thesis by simp
qed

lemma animate_mass:
  assumes "animate py cfg ini (S, out) = Inr (S', out')"
  shows "map mass (system S') = map mass (system S)"
proof (rule nth_equalityI)
  show "length (map mass (system S')) = length (map mass (system S))"
    using animate_length [OF assms] by simp
  fix i assume "i < length (map mass (system S'))"
  then have i: "i < length (system S)" using animate_length [OF assms] by simp
  then have i1: "i < length (system (S\<lparr>closeness := []\<rparr>))" by simp
  have "mass (system S' ! i) = mass (system (phase1 cfg (S\<lparr>closeness := []\<rparr>)) ! i)"
    unfolding animate_step(1) [OF assms] using i by (simp add: phase2_nth)
  also have "\<dots> = mass (system S ! i)"
    using erase_mass [OF phase1_frame [OF i1, of cfg]] by simp
  finally show "map mass (system S') ! i = map mass (system S) ! i"
    using i animate_length [OF assms] by simp
qed

lemma animate_momentum:
  assumes "animate py cfg ini (S, out) = Inr (S', out')"
    and "pairwise_apart (system S)" and "\<forall>b \<in> set (system S). mass b \<noteq> 0"
  shows "momentum (system S') = momentum (system S)"
proof -
  have "momentum (system S') = momentum (system (phase1 cfg (S\<lparr>closeness := []\<rparr>)))"
    unfolding animate_step(1) [OF assms(1)] by (rule phase2_momentum)
  also have "\<dots> = momentum (system (S\<lparr>closeness := []\<rparr>))"
    by (rule phase1_momentum) (use assms in simp_all)
  finally show ?thesis by simp
qed

lemma positive_masses_map:
  "(\<forall>b \<in> set bs. mass b > 0) \<longleftrightarrow> (\<forall>m \<in> set (map mass bs). m > 0)"
  by simp

text \<open>
  Claim C7, with the condition the code needs. For bodies of positive mass, a run in
  which the positions are pairwise distinct at the start of every step leaves the total
  momentum, the componentwise sum of \<open>mass\<^sub>i V\<^sub>i\<close>, unchanged, in exact real arithmetic
  and whatever the time step of each step is.
\<close>

theorem momentum_conserved:
  assumes "\<forall>b \<in> set (system S). mass b > 0"
    and "run_apart py cfg inis (S, file)"
    and "run py cfg inis (S, file) = Inr (S', file')"
  shows "momentum (system S') = momentum (system S)"
proof -
  have "run_apart py cfg inis (S, out) \<Longrightarrow> run py cfg inis (S, out) = Inr (S', out')
      \<Longrightarrow> \<forall>b \<in> set (system S). mass b > 0 \<Longrightarrow> momentum (system S') = momentum (system S)"
    for out out'
  proof (induction inis arbitrary: S out)
    case Nil
    then show ?case by simp
  next
    case (Cons ini inis)
    from Cons.prems(2) obtain S1 out1 where a: "animate py cfg ini (S, out) = Inr (S1, out1)"
      and r: "run py cfg inis (S1, out1) = Inr (S', out')"
      by (cases "animate py cfg ini (S, out)") auto
    from Cons.prems(1) a have apart: "pairwise_apart (system S)"
      and rest: "run_apart py cfg inis (S1, out1)" by simp_all
    have nz: "\<forall>b \<in> set (system S). mass b \<noteq> 0" using Cons.prems(3) by auto
    have m1: "\<forall>b \<in> set (system S1). mass b > 0"
      using Cons.prems(3) animate_mass [OF a]
      by (simp only: positive_masses_map)
    have "momentum (system S') = momentum (system S1)"
      by (rule Cons.IH [OF rest r m1])
    also have "\<dots> = momentum (system S)"
      by (rule animate_momentum [OF a apart nz])
    finally show ?case .
  qed
  from this [OF assms(2,3,1)] show ?thesis .
qed

text \<open>One step of the two-body system, which starts at rest.\<close>

theorem momentum_conserved_witness:
  "\<exists>S1 file1. run demo_py demo_config [demo_init] (pair_system, []) = Inr (S1, file1)
     \<and> momentum (system S1) = (0, 0, 0)"
proof -
  have ok: "SAVE_RATE demo_config \<noteq> 0" "system pair_system \<noteq> []"
    by (simp_all add: demo_config_def pair_bodies)
  obtain S1 file1 where a1: "animate demo_py demo_config demo_init (pair_system, []) = Inr (S1, file1)"
    using animate_Inr [OF ok, of demo_py demo_init "[]"] by (simp add: Let_def)
  have r: "run demo_py demo_config [demo_init] (pair_system, []) = Inr (S1, file1)"
    using a1 by simp
  have masses: "\<forall>b \<in> set (system pair_system). mass b > 0"
    by (simp add: pair_bodies body_at_def Body_def zeroF_def)
  have apart: "pairwise_apart (system pair_system)"
    by (auto simp: pairwise_apart_def pair_bodies less_Suc_eq body_at_def Body_def zeroF_def same_place_def)
  have ra: "run_apart demo_py demo_config [demo_init] (pair_system, [])"
    using apart a1 by simp
  have m0: "momentum (system pair_system) = (0, 0, 0)"
    by (simp add: momentum_def pair_bodies body_at_def Body_def zeroF_def)
  have "momentum (system S1) = (0, 0, 0)"
    using momentum_conserved [OF masses ra r] m0 by simp
  with r show ?thesis by blast
qed

lemma animate_body:
  assumes "animate py cfg ini (S, out) = Inr (S', out')" and i: "i < length (system S)"
  shows "system S' ! i = moved cfg (DELTA_T S) (system (phase1 cfg (S\<lparr>closeness := []\<rparr>)) ! i)"
  unfolding animate_step(1) [OF assms(1)] using i by (simp add: phase2_nth)

lemma animate_DELTA_T:
  assumes "animate py cfg ini (S, out) = Inr (S', out')"
  shows "DELTA_T S' =
     (if \<not> bool_T ini then 0
      else if (\<exists>p \<in> set (pairs (length (system S'))). near (system S') p \<or> collided (system S') p)
           then FINE_DELTA_T cfg
      else Definition.NORM_DELTA_T ini)"
proof -
  note ok = animate_Inr_D [OF assms]
  let ?S3 = "phase2 cfg (phase1 cfg (S\<lparr>closeness := []\<rparr>))"
  let ?r = "if_collision py cfg ini ?S3
      (if count S mod SAVE_RATE cfg = 0 then out @ [write_to_file py (S\<lparr>closeness := []\<rparr>)] else out)"
  from assms have S': "S' = (fst ?r)\<lparr>count := count S + 1\<rparr>"
    by (simp add: animate_Inr [OF ok] Let_def)
  have sys: "system S' = system ?S3" unfolding S' by simp
  have "DELTA_T S' = DELTA_T (fst ?r)" unfolding S' by simp
  also have "\<dots> = (if \<not> bool_T ini then 0
      else if (\<exists>p \<in> set (pairs (length (system ?S3))). near (system ?S3) p \<or> collided (system ?S3) p)
           then FINE_DELTA_T cfg
      else Definition.NORM_DELTA_T ini)"
    by (simp only: if_collision_DELTA_T scan_flag)
  finally show ?thesis by (simp only: sys)
qed

lemma sqrt_16: "sqrt 16 = 4"
  by (rule real_sqrt_unique) simp_all

lemma sqrt_36: "sqrt 36 = 6"
  by (rule real_sqrt_unique) simp_all

lemma merging_bodies:
  "system merging_system =
       [body_at ''a'' 0 0 0 (- (3 / 16)) 0 0 1 0,
        body_at ''b'' 2 0 0 (- (31 / 18)) 0 0 1 0,
        body_at ''c'' (- 4) 0 0 (- (13 / 144)) 0 0 1 0]"
  by (simp add: merging_system_def Asystem_def)

lemma upt_3: "[0..<3] = [0, 1, 2]"
  by code_simp

lemma merging_net:
  "net_force 1 (system merging_system) 0 = (3 / 16, 0, 0)"
  "net_force 1 (system merging_system) (Suc 0) = (- (5 / 18), 0, 0)"
  "net_force 1 (system merging_system) 2 = (13 / 144, 0, 0)"
  by (simp_all add: net_force_def Let_def merging_bodies upt_3 newton_force_def distance_between_def
      body_at_def Body_def zeroF_def sqrt_16 sqrt_36)

lemma merging_apart: "pairwise_apart (system merging_system)"
  by (auto simp: pairwise_apart_def merging_bodies less_Suc_eq numeral_3_eq_3 body_at_def Body_def
      zeroF_def same_place_def)

lemma merging_fields:
  "mass (system merging_system ! 0) = 1" "mass (system merging_system ! Suc 0) = 1"
  "mass (system merging_system ! 2) = 1"
  "DELTA_T merging_system = 1" "GRAV_CONS demo_config = 1"
  "length (system merging_system) = 3"
  by (simp_all add: merging_bodies body_at_def Body_def zeroF_def merging_system_def Asystem_def
      demo_config_def)

lemma merging_first_step:
  assumes a: "animate demo_py demo_config demo_init (merging_system, []) = Inr (S1, out1)"
  shows "x (system S1 ! 0) = 0 \<and> y (system S1 ! 0) = 0 \<and> z (system S1 ! 0) = 0
       \<and> Vx (system S1 ! 0) = 0 \<and> mass (system S1 ! 0) = 1 \<and> radius (system S1 ! 0) = 0"
    and "x (system S1 ! Suc 0) = 0 \<and> y (system S1 ! Suc 0) = 0 \<and> z (system S1 ! Suc 0) = 0
       \<and> Vx (system S1 ! Suc 0) = - 2 \<and> mass (system S1 ! Suc 0) = 1 \<and> radius (system S1 ! Suc 0) = 0"
    and "x (system S1 ! 2) = - 4 \<and> y (system S1 ! 2) = 0 \<and> z (system S1 ! 2) = 0
       \<and> Vx (system S1 ! 2) = 0 \<and> mass (system S1 ! 2) = 1 \<and> radius (system S1 ! 2) = 0"
proof -
  let ?S = "merging_system\<lparr>closeness := []\<rparr>"
  have sys: "system ?S = system merging_system" "DELTA_T ?S = DELTA_T merging_system" by simp_all
  have apart: "\<forall>j < length (system ?S). j \<noteq> i \<longrightarrow> \<not> same_place (system ?S ! j) (system ?S ! i)"
    if "i < length (system ?S)" for i
    using merging_apart that by (simp add: pairwise_apart_def)
  have b: "system S1 ! i = moved demo_config 1
      ((system merging_system ! i)
       \<lparr>Fx := fst (net_force 1 (system merging_system) i),
        Fy := fst (snd (net_force 1 (system merging_system) i)),
        Fz := snd (snd (net_force 1 (system merging_system) i)),
        Vx := Vx (system merging_system ! i) + fst (net_force 1 (system merging_system) i) * 1 / mass (system merging_system ! i),
        Vy := Vy (system merging_system ! i) + fst (snd (net_force 1 (system merging_system) i)) * 1 / mass (system merging_system ! i),
        Vz := Vz (system merging_system ! i) + snd (snd (net_force 1 (system merging_system) i)) * 1 / mass (system merging_system ! i)\<rparr>)"
    if i: "i < 3" and m: "mass (system merging_system ! i) \<noteq> 0" for i
  proof -
    have i': "i < length (system ?S)" using i by (simp add: merging_fields)
    have m': "mass (system ?S ! i) \<noteq> 0" using m by simp
    have "system S1 ! i = moved demo_config (DELTA_T merging_system) (system (phase1 demo_config ?S) ! i)"
      using animate_body [OF a] i by (simp add: merging_fields)
    then show ?thesis
      unfolding semi_implicit_euler_aux [OF i' m' apart [OF i'], of demo_config] sys merging_fields
      by simp
  qed
  have m: "mass (system merging_system ! 0) \<noteq> 0" "mass (system merging_system ! Suc 0) \<noteq> 0"
    "mass (system merging_system ! 2) \<noteq> 0"
    by (simp_all add: merging_fields)
  note ev = moved_def cal_position_def Let_def merging_net merging_bodies body_at_def
          Body_def zeroF_def
  have b0: "system S1 ! 0 = moved demo_config 1
      ((system merging_system ! 0)\<lparr>Fx := 3 / 16, Fy := 0, Fz := 0,
         Vx := Vx (system merging_system ! 0) + 3 / 16, Vy := Vy (system merging_system ! 0),
         Vz := Vz (system merging_system ! 0)\<rparr>)"
    using b [of 0, OF _ m(1)] by (simp add: merging_net merging_fields)
  have b1: "system S1 ! Suc 0 = moved demo_config 1
      ((system merging_system ! Suc 0)\<lparr>Fx := - (5 / 18), Fy := 0, Fz := 0,
         Vx := Vx (system merging_system ! Suc 0) - 5 / 18, Vy := Vy (system merging_system ! Suc 0),
         Vz := Vz (system merging_system ! Suc 0)\<rparr>)"
    using b [of "Suc 0", OF _ m(2)] by (simp add: merging_net merging_fields)
  have b2: "system S1 ! 2 = moved demo_config 1
      ((system merging_system ! 2)\<lparr>Fx := 13 / 144, Fy := 0, Fz := 0,
         Vx := Vx (system merging_system ! 2) + 13 / 144, Vy := Vy (system merging_system ! 2),
         Vz := Vz (system merging_system ! 2)\<rparr>)"
    using b [of 2, OF _ m(3)] by (simp add: merging_net merging_fields)
  show "x (system S1 ! 0) = 0 \<and> y (system S1 ! 0) = 0 \<and> z (system S1 ! 0) = 0
       \<and> Vx (system S1 ! 0) = 0 \<and> mass (system S1 ! 0) = 1 \<and> radius (system S1 ! 0) = 0"
    by (simp only: b0) (simp add: ev)
  show "x (system S1 ! Suc 0) = 0 \<and> y (system S1 ! Suc 0) = 0 \<and> z (system S1 ! Suc 0) = 0
       \<and> Vx (system S1 ! Suc 0) = - 2 \<and> mass (system S1 ! Suc 0) = 1 \<and> radius (system S1 ! Suc 0) = 0"
    by (simp only: b1) (simp add: ev)
  show "x (system S1 ! 2) = - 4 \<and> y (system S1 ! 2) = 0 \<and> z (system S1 ! 2) = 0
       \<and> Vx (system S1 ! 2) = 0 \<and> mass (system S1 ! 2) = 1 \<and> radius (system S1 ! 2) = 0"
    by (simp only: b2) (simp add: ev)
qed

lemma sum_lessThan_3: "(\<Sum>i<3. g i) = g 0 + g (Suc 0) + g 2" for g :: "nat \<Rightarrow> real"
  by (simp add: numeral_3_eq_3 numeral_2_eq_2)

lemma merging_second_step:
  assumes a1: "animate demo_py demo_config demo_init (merging_system, []) = Inr (S1, out1)"
    and a2: "animate demo_py demo_config demo_init (S1, out1) = Inr (S2, out2)"
  shows "fst (momentum (system S2)) = - (31 / 16)"
proof -
  note f = merging_first_step [OF a1]
  let ?S = "S1\<lparr>closeness := []\<rparr>"
  have len1: "length (system S1) = 3"
    using animate_length [OF a1] by (simp add: merging_fields)
  have len2: "length (system S2) = 3"
    using animate_length [OF a2] len1 by simp
  have near10: "near (system S1) (Suc 0, 0)"
    using f by (simp add: near_def distance_between_def)
  have "(Suc 0, 0) \<in> set (pairs (length (system S1)))"
    by (simp add: set_pairs len1)
  with near10 have ex: "\<exists>p \<in> set (pairs (length (system S1))). near (system S1) p \<or> collided (system S1) p"
    by blast
  have dt1: "DELTA_T S1 = 1 / 2"
    using animate_DELTA_T [OF a1] ex by (simp add: demo_init_def demo_config_def)
  have masses: "mass (system S2 ! i) = mass (system S1 ! i)" if "i < 3" for i
  proof -
    have "mass (system S2 ! i) = map mass (system S2) ! i" using that len2 by simp
    also have "\<dots> = map mass (system S1) ! i" by (simp only: animate_mass [OF a2])
    also have "\<dots> = mass (system S1 ! i)" using that len1 by simp
    finally show ?thesis .
  qed
  have vel: "Vx (system S2 ! i) = Vx (system (phase1 demo_config ?S) ! i)" if "i < 3" for i
    using animate_body [OF a2, of i] that len1 by simp
  have same: "same_place (system ?S ! Suc 0) (system ?S ! 0)" "same_place (system ?S ! 0) (system ?S ! Suc 0)"
    using f by (simp_all add: same_place_def)
  have v0: "Vx (system S2 ! 0) = 0"
  proof -
    have "Vx (system (phase1 demo_config ?S) ! 0) = Vx (system ?S ! 0)"
      using compute1_coincident(2) [of 0 ?S "Suc 0" demo_config] same len1
      by (simp add: phase1_nth)
    then show ?thesis using vel [of 0] f by simp
  qed
  have v1: "Vx (system S2 ! Suc 0) = - 2"
  proof -
    have "Vx (system (phase1 demo_config ?S) ! Suc 0) = Vx (system ?S ! Suc 0)"
      using compute1_coincident(2) [of "Suc 0" ?S 0 demo_config] same len1
      by (simp add: phase1_nth)
    then show ?thesis using vel [of "Suc 0"] f by simp
  qed
  have v2: "Vx (system S2 ! 2) = 1 / 16"
  proof -
    have i: "2 < length (system ?S)" using len1 by simp
    have m: "mass (system ?S ! 2) \<noteq> 0" using f by simp
    have apart: "\<forall>j < length (system ?S). j \<noteq> 2 \<longrightarrow> \<not> same_place (system ?S ! j) (system ?S ! 2)"
      using f len1 by (auto simp: same_place_def less_Suc_eq numeral_3_eq_3 numeral_2_eq_2)
    have js: "filter (\<lambda>j. j \<noteq> 2) [0..<length (system S1)] = [0, Suc 0]"
      by (simp add: len1 upt_3)
    have net: "fst (net_force 1 (system S1) 2) = 1 / 8"
      unfolding net_force_def Let_def js using f
      by (simp add: newton_force_def distance_between_def Let_def sqrt_16)
    have "Vx (system (phase1 demo_config ?S) ! 2) = 1 / 16"
      unfolding semi_implicit_euler_aux [OF i m apart, of demo_config]
      using f by (simp add: net dt1 demo_config_def)
    then show ?thesis using vel [of 2] by simp
  qed
  have "fst (momentum (system S2)) = (\<Sum>i<3. mass (system S2 ! i) * Vx (system S2 ! i))"
    by (simp add: momentum_def sum_list_map_nth len2)
  also have "\<dots> = - (31 / 16)"
    unfolding sum_lessThan_3 using masses [of 0] masses [of "Suc 0"] masses [of 2] f v0 v1 v2
    by simp
  finally show ?thesis .
qed

text \<open>
  Distinct positions at the start of the run are not enough. Three bodies of mass 1 on
  a line start at distinct positions; the first step, which conserves the momentum
  \<open>-2\<close>, brings two of them to the same point; in the second step their force tasks
  raise and leave their velocities alone, while the third body is still accelerated:
  the momentum becomes \<open>-31/16\<close>.
\<close>

theorem momentum_counterexample:
  "list_all (\<lambda>b. mass b > 0) (system merging_system)
   \<and> pairwise_apart (system merging_system)
   \<and> \<not> isl (run demo_py demo_config [demo_init, demo_init] (merging_system, []))
   \<and> fst (momentum (system merging_system)) = - 2
   \<and> fst (momentum (system (fst (projr
         (run demo_py demo_config [demo_init, demo_init] (merging_system, [])))))) = - (31 / 16)"
proof -
  have ok: "SAVE_RATE demo_config \<noteq> 0" "system merging_system \<noteq> []"
    by (simp_all add: demo_config_def merging_bodies)
  obtain S1 out1 where a1: "animate demo_py demo_config demo_init (merging_system, []) = Inr (S1, out1)"
    using animate_Inr [OF ok, of demo_py demo_init "[]"] by (simp add: Let_def)
  have "length (system S1) = 3"
    using animate_length [OF a1] by (simp add: merging_fields)
  then have ne1: "system S1 \<noteq> []" by auto
  obtain S2 out2 where a2: "animate demo_py demo_config demo_init (S1, out1) = Inr (S2, out2)"
    using animate_Inr [OF ok(1) ne1, of demo_py demo_init out1] by (simp add: Let_def)
  have r: "run demo_py demo_config [demo_init, demo_init] (merging_system, []) = Inr (S2, out2)"
    using a1 a2 by simp
  have masses: "list_all (\<lambda>b. mass b > 0) (system merging_system)"
    by (simp add: merging_bodies body_at_def Body_def zeroF_def)
  have m0: "fst (momentum (system merging_system)) = - 2"
    by (simp add: momentum_def merging_bodies body_at_def Body_def zeroF_def)
  show ?thesis
    unfolding r using masses merging_apart m0 merging_second_step [OF a1 a2] by simp
qed

section \<open>Closeness events\<close>









section \<open>Snapshots read back\<close>




lemma plain_simps [simp]:
  "plain s \<Longrightarrow> comma \<notin> set s" "plain s \<Longrightarrow> newline \<notin> set s"
  by (simp_all add: plain_def)





















section \<open>The accumulator of a coincident body\<close>

lemma force_loop_raise_at:
  assumes "\<forall>ob \<in> set (others i ps1). \<not> same_place ob b" and "j \<noteq> i" and "same_place cb b"
  shows "force_loop G i b (ps1 @ (j, cb) # ps2) =
     (Some ZeroDivisionError,
      b\<lparr>Fx := Fx b + (\<Sum>ob\<leftarrow>others i ps1. fst (newton_force G b ob)),
        Fy := Fy b + (\<Sum>ob\<leftarrow>others i ps1. fst (snd (newton_force G b ob))),
        Fz := Fz b + (\<Sum>ob\<leftarrow>others i ps1. snd (snd (newton_force G b ob)))\<rparr>)"
  using assms
proof (induction ps1 arbitrary: b)
  case Nil
  then show ?case by (simp add: cal_netforce_same_place)
next
  case (Cons p ps1)
  obtain k ob where p: "p = (k, ob)" by (cases p)
  show ?case
  proof (cases "i = k")
    case True
    with Cons p show ?thesis by simp
  next
    case False
    with Cons.prems p have apart: "\<not> same_place ob b"
      and rest: "\<forall>ob \<in> set (others i ps1). \<not> same_place ob b" by auto
    let ?b' = "b\<lparr>Fx := Fx b + fst (newton_force G b ob),
            Fy := Fy b + fst (snd (newton_force G b ob)),
            Fz := Fz b + snd (snd (newton_force G b ob))\<rparr>"
    have "force_loop G i b ((p # ps1) @ (j, cb) # ps2) = force_loop G i ?b' (ps1 @ (j, cb) # ps2)"
      using False p cal_netforce_apart [OF apart, of G] by simp
    also have "\<dots> = (Some ZeroDivisionError,
       ?b'\<lparr>Fx := Fx ?b' + (\<Sum>ob\<leftarrow>others i ps1. fst (newton_force G ?b' ob)),
         Fy := Fy ?b' + (\<Sum>ob\<leftarrow>others i ps1. fst (snd (newton_force G ?b' ob))),
         Fz := Fz ?b' + (\<Sum>ob\<leftarrow>others i ps1. snd (snd (newton_force G ?b' ob)))\<rparr>)"
      by (rule Cons.IH) (use rest Cons.prems in simp_all)
    finally show ?thesis using False p by (simp add: add.assoc)
  qed
qed

lemma enumerate_split:
  assumes "k < length bs"
  shows "enumerate_bodies bs =
     map (\<lambda>j. (j, bs ! j)) [0..<k] @ (k, bs ! k) # map (\<lambda>j. (j, bs ! j)) [Suc k..<length bs]"
proof -
  have "k + (length bs - k) = length bs" using assms by simp
  then have "[0..<length bs] = [0..<k] @ [k..<length bs]"
    using upt_add_eq_append [of 0 k "length bs - k"] by (simp only: le0)
  also have "[k..<length bs] = k # [Suc k..<length bs]"
    using assms by (rule upt_conv_Cons)
  finally have sp: "[0..<length bs] = [0..<k] @ k # [Suc k..<length bs]" .
  show ?thesis
    unfolding enumerate_bodies_map by (subst sp) (simp only: map_append list.map)
qed

lemma compute1_first_coincident:
  assumes i: "i < length (system S)" and k: "k < length (system S)" "k \<noteq> i"
    and same: "same_place (system S ! k) (system S ! i)"
    and first: "\<forall>j < k. j \<noteq> i \<longrightarrow> \<not> same_place (system S ! j) (system S ! i)"
  shows "compute1 cfg S i =
     (Some ZeroDivisionError,
      set_body S i ((system S ! i)
        \<lparr>Fx := fst (force_before (GRAV_CONS cfg) (system S) i k),
         Fy := fst (snd (force_before (GRAV_CONS cfg) (system S) i k)),
         Fz := snd (snd (force_before (GRAV_CONS cfg) (system S) i k))\<rparr>))"
proof -
  let ?bs = "system S" and ?b0 = "zeroF (system S ! i)"
  let ?ps1 = "map (\<lambda>j. (j, ?bs ! j)) [0..<k]"
  have o: "others i ?ps1 = map (\<lambda>j. ?bs ! j) (filter (\<lambda>j. j \<noteq> i) [0..<k])"
    by (simp add: others_def filter_map comp_def)
  have apart: "\<forall>ob \<in> set (others i ?ps1). \<not> same_place ob ?b0"
    using first by (auto simp: o zeroF_def same_place_def)
  have same0: "same_place (?bs ! k) ?b0"
    using same by (simp add: zeroF_def same_place_def)
  have nf: "newton_force G ?b0 ob = newton_force G (?bs ! i) ob" for G ob
    by (simp add: zeroF_def)
  let ?G = "GRAV_CONS cfg"
  have fl: "force_loop ?G i ?b0 (enumerate_bodies ?bs) =
     (Some ZeroDivisionError,
      ?b0\<lparr>Fx := Fx ?b0 + (\<Sum>ob\<leftarrow>others i ?ps1. fst (newton_force ?G ?b0 ob)),
          Fy := Fy ?b0 + (\<Sum>ob\<leftarrow>others i ?ps1. fst (snd (newton_force ?G ?b0 ob))),
          Fz := Fz ?b0 + (\<Sum>ob\<leftarrow>others i ?ps1. snd (snd (newton_force ?G ?b0 ob)))\<rparr>)"
    unfolding enumerate_split [OF k(1)] by (rule force_loop_raise_at [OF apart k(2) same0])
  have sums:
    "(\<Sum>ob\<leftarrow>others i ?ps1. fst (newton_force ?G ?b0 ob)) = fst (force_before ?G ?bs i k)"
    "(\<Sum>ob\<leftarrow>others i ?ps1. fst (snd (newton_force ?G ?b0 ob))) = fst (snd (force_before ?G ?bs i k))"
    "(\<Sum>ob\<leftarrow>others i ?ps1. snd (snd (newton_force ?G ?b0 ob))) = snd (snd (force_before ?G ?bs i k))"
    unfolding o nf force_before_def Let_def by (simp_all add: comp_def)
  have zb: "?b0\<lparr>Fx := Fx ?b0 + p, Fy := Fy ?b0 + q, Fz := Fz ?b0 + r\<rparr>
      = (?bs ! i)\<lparr>Fx := p, Fy := q, Fz := r\<rparr>" for p q r
    by (simp add: zeroF_def)
  show ?thesis
    unfolding compute1_def Let_def fl sums zb by simp
qed

lemma first_coincident_exists:
  fixes i j n :: nat
  assumes "j < n" "j \<noteq> i" "P j"
  shows "\<exists>k < n. k \<noteq> i \<and> P k \<and> (\<forall>j < k. j \<noteq> i \<longrightarrow> \<not> P j)"
proof -
  define Q where "Q k \<longleftrightarrow> k \<noteq> i \<and> P k" for k
  define k where "k = (LEAST k. Q k)"
  have Qj: "Q j" using assms by (simp add: Q_def)
  have Qk: "Q k" unfolding k_def using Qj by (rule LeastI)
  have le: "k \<le> j" unfolding k_def using Qj by (rule Least_le)
  have least: "\<not> Q m" if "m < k" for m
    using that unfolding k_def by (rule not_less_Least)
  have "k < n" using le assms(1) by simp
  moreover have "k \<noteq> i" "P k" using Qk by (simp_all add: Q_def)
  moreover have "\<forall>m < k. m \<noteq> i \<longrightarrow> \<not> P m"
    using least by (auto simp: Q_def)
  ultimately show ?thesis by blast
qed

text \<open>
  Claim C3, as the code has it. The program has no \<^verbatim>\<open>DegenerateGeometry\<close> error and no check
  of coincident bodies. When two distinct bodies \<open>i\<close> and \<open>j\<close> share their coordinates, the
  force task of \<open>i\<close> raises \<^verbatim>\<open>ZeroDivisionError\<close> in its own thread. By then it has zeroed
  the accumulator of \<open>i\<close> and added the contributions of the bodies listed before the
  first one that coincides with \<open>i\<close>: that partial sum, and nothing of the old value, is
  what the accumulator holds after the phase. The velocity of \<open>i\<close> is not updated in this
  step. The step itself does not fail for that reason: it goes on to the position
  phase and returns.
\<close>

theorem coincident_bodies_raise_in_thread:
  assumes "i < length (system S)" "j < length (system S)" "j \<noteq> i"
    and "same_place (system S ! j) (system S ! i)"
  shows "fst (compute1 cfg S i) = Some ZeroDivisionError
     \<and> (\<exists>k < length (system S). k \<noteq> i \<and> same_place (system S ! k) (system S ! i)
           \<and> (\<forall>m < k. m \<noteq> i \<longrightarrow> \<not> same_place (system S ! m) (system S ! i))
           \<and> Fx (system (phase1 cfg S) ! i) = fst (force_before (GRAV_CONS cfg) (system S) i k)
           \<and> Fy (system (phase1 cfg S) ! i) = fst (snd (force_before (GRAV_CONS cfg) (system S) i k))
           \<and> Fz (system (phase1 cfg S) ! i) = snd (snd (force_before (GRAV_CONS cfg) (system S) i k)))
     \<and> Vx (system (phase1 cfg S) ! i) = Vx (system S ! i)
     \<and> Vy (system (phase1 cfg S) ! i) = Vy (system S ! i)
     \<and> Vz (system (phase1 cfg S) ! i) = Vz (system S ! i)
     \<and> (SAVE_RATE cfg \<noteq> 0 \<longrightarrow>
          (\<exists>S' file'. animate py cfg ini (S, file) = Inr (S', file')
             \<and> system S' = system (phase2 cfg (phase1 cfg (S\<lparr>closeness := []\<rparr>)))))"
proof -
  have ne: "system S \<noteq> []" using assms(1) by auto
  obtain k where k: "k < length (system S)" "k \<noteq> i" "same_place (system S ! k) (system S ! i)"
    and first: "\<forall>m < k. m \<noteq> i \<longrightarrow> \<not> same_place (system S ! m) (system S ! i)"
    using first_coincident_exists [of j "length (system S)" i
        "\<lambda>m. same_place (system S ! m) (system S ! i)"] assms(2,3,4)
    by blast
  note c = compute1_first_coincident [OF assms(1) k first, of cfg]
  have acc: "Fx (system (phase1 cfg S) ! i) = fst (force_before (GRAV_CONS cfg) (system S) i k)"
    "Fy (system (phase1 cfg S) ! i) = fst (snd (force_before (GRAV_CONS cfg) (system S) i k))"
    "Fz (system (phase1 cfg S) ! i) = snd (snd (force_before (GRAV_CONS cfg) (system S) i k))"
    using assms(1) by (simp_all add: phase1_nth c set_body_def)
  have vel: "Vx (system (phase1 cfg S) ! i) = Vx (system S ! i)"
    "Vy (system (phase1 cfg S) ! i) = Vy (system S ! i)"
    "Vz (system (phase1 cfg S) ! i) = Vz (system S ! i)"
    using assms(1) by (simp_all add: phase1_nth c set_body_def)
  have err: "fst (compute1 cfg S i) = Some ZeroDivisionError" by (simp add: c)
  have step: "\<exists>S' file'. animate py cfg ini (S, file) = Inr (S', file')
             \<and> system S' = system (phase2 cfg (phase1 cfg (S\<lparr>closeness := []\<rparr>)))"
    if "SAVE_RATE cfg \<noteq> 0"
    using that ne by (simp add: animate_Inr Let_def)
  from err k first acc vel step show ?thesis by blast
qed

lemma stale_bodies:
  "system stale_system =
       [body_at ''c'' 2 0 0 0 0 0 1 0,
        (body_at ''a'' 0 0 0 1 0 0 2 0)\<lparr>Fx := 7\<rparr>,
        body_at ''b'' 0 0 0 0 0 0 3 0]"
  by (simp add: stale_system_def Asystem_def)

lemma stale_partial_force:
  "force_before (GRAV_CONS demo_config) (system stale_system) (Suc 0) 2 = (1 / 2, 0, 0)"
proof -
  have js: "filter (\<lambda>j. j \<noteq> Suc 0) [0..<2] = [0]"
    by (simp add: upt_rec [of 0] upt_rec [of 1])
  show ?thesis
    unfolding force_before_def Let_def js
    by (simp add: stale_bodies body_at_def Body_def zeroF_def newton_force_def distance_between_def
        demo_config_def Let_def)
qed

text \<open>
  Body \<open>a\<close> carries a stale force 7 and coincides with \<open>b\<close>, listed after it; \<open>c\<close> is
  listed before both. The task of \<open>a\<close> leaves the contribution of \<open>c\<close> alone, \<open>1/2\<close>.
\<close>

theorem coincident_bodies_raise_in_thread_witness:
  "fst (compute1 demo_config stale_system (Suc 0)) = Some ZeroDivisionError
   \<and> Fx (system stale_system ! Suc 0) = 7
   \<and> Fx (system (phase1 demo_config stale_system) ! Suc 0) = 1 / 2
   \<and> Fy (system (phase1 demo_config stale_system) ! Suc 0) = 0
   \<and> Fz (system (phase1 demo_config stale_system) ! Suc 0) = 0
   \<and> Vx (system (phase1 demo_config stale_system) ! Suc 0) = 1
   \<and> (\<exists>S' file'. animate demo_py demo_config demo_init (stale_system, []) = Inr (S', file')
         \<and> system S' = system (phase2 demo_config (phase1 demo_config (stale_system\<lparr>closeness := []\<rparr>))))"
proof -
  have len: "Suc 0 < length (system stale_system)" "2 < length (system stale_system)"
    by (simp_all add: stale_bodies)
  have same: "same_place (system stale_system ! 2) (system stale_system ! Suc 0)"
    by (simp add: stale_bodies body_at_def Body_def zeroF_def same_place_def)
  have far: "\<not> same_place (system stale_system ! 0) (system stale_system ! Suc 0)"
    by (simp add: stale_bodies body_at_def Body_def zeroF_def same_place_def)
  have vals: "Fx (system stale_system ! Suc 0) = 7" "Vx (system stale_system ! Suc 0) = 1"
    by (simp_all add: stale_bodies body_at_def Body_def zeroF_def)
  have run: "SAVE_RATE demo_config \<noteq> 0" by (simp add: demo_config_def)
  have neq: "(2::nat) \<noteq> Suc 0" by simp
  note t = coincident_bodies_raise_in_thread [OF len(1) len(2) neq same,
      of demo_config demo_py demo_init "[]"]
  from t obtain k where k: "k < length (system stale_system)" "k \<noteq> Suc 0"
      "same_place (system stale_system ! k) (system stale_system ! Suc 0)"
    and acc: "Fx (system (phase1 demo_config stale_system) ! Suc 0)
        = fst (force_before (GRAV_CONS demo_config) (system stale_system) (Suc 0) k)"
      "Fy (system (phase1 demo_config stale_system) ! Suc 0)
        = fst (snd (force_before (GRAV_CONS demo_config) (system stale_system) (Suc 0) k))"
      "Fz (system (phase1 demo_config stale_system) ! Suc 0)
        = snd (snd (force_before (GRAV_CONS demo_config) (system stale_system) (Suc 0) k))"
    by blast
  have "k < 3" using k(1) by (simp add: stale_bodies)
  then have "k = 0 \<or> k = Suc 0 \<or> k = 2" by auto
  with k(2,3) far have k2: "k = 2" by auto
  have f: "Fx (system (phase1 demo_config stale_system) ! Suc 0) = 1 / 2"
    "Fy (system (phase1 demo_config stale_system) ! Suc 0) = 0"
    "Fz (system (phase1 demo_config stale_system) ! Suc 0) = 0"
    using acc unfolding k2 stale_partial_force by simp_all
  from t have err: "fst (compute1 demo_config stale_system (Suc 0)) = Some ZeroDivisionError"
    and v: "Vx (system (phase1 demo_config stale_system) ! Suc 0) = Vx (system stale_system ! Suc 0)"
    by blast+
  from t run have step: "\<exists>S' file'. animate demo_py demo_config demo_init (stale_system, []) = Inr (S', file')
         \<and> system S' = system (phase2 demo_config (phase1 demo_config (stale_system\<lparr>closeness := []\<rparr>)))"
    by blast
  show ?thesis
    using err vals(1) f v [unfolded vals(2)] step by blast
qed

section \<open>The integration step\<close>

text \<open>
  The force task of body \<open>i\<close> completes exactly when no other body shares its
  position; when it raises, the velocity of body \<open>i\<close> is the one it had.
\<close>

lemma erase_time:
  "erase_force_velocity a = erase_force_velocity b \<Longrightarrow> time a = time b"
proof -
  assume h: "erase_force_velocity a = erase_force_velocity b"
  have "time a = time (erase_force_velocity a)" "time b = time (erase_force_velocity b)"
    by (simp_all add: erase_force_velocity_def)
  with h show ?thesis by simp
qed

lemma compute1_None_iff:
  assumes i: "i < length (system S)" and m: "mass (system S ! i) \<noteq> 0"
  shows "fst (compute1 cfg S i) = None \<longleftrightarrow>
     (\<forall>j < length (system S). j \<noteq> i \<longrightarrow> \<not> same_place (system S ! j) (system S ! i))"
proof
  assume n: "fst (compute1 cfg S i) = None"
  show "\<forall>j < length (system S). j \<noteq> i \<longrightarrow> \<not> same_place (system S ! j) (system S ! i)"
  proof (intro allI impI notI)
    fix j assume "j < length (system S)" "j \<noteq> i" "same_place (system S ! j) (system S ! i)"
    from compute1_coincident(1) [OF i this, of cfg] n show False by simp
  qed
next
  assume "\<forall>j < length (system S). j \<noteq> i \<longrightarrow> \<not> same_place (system S ! j) (system S ! i)"
  from compute1_apart [OF i this, of cfg] m show "fst (compute1 cfg S i) = None"
    by (simp add: Let_def)
qed

lemma compute1_raised_velocity:
  assumes i: "i < length (system S)" and e: "fst (compute1 cfg S i) \<noteq> None"
    and m: "mass (system S ! i) \<noteq> 0"
  shows "Vx (system (snd (compute1 cfg S i)) ! i) = Vx (system S ! i)"
    "Vy (system (snd (compute1 cfg S i)) ! i) = Vy (system S ! i)"
    "Vz (system (snd (compute1 cfg S i)) ! i) = Vz (system S ! i)"
proof -
  from e compute1_None_iff [OF i m, of cfg]
  have "\<not> (\<forall>j < length (system S). j \<noteq> i \<longrightarrow> \<not> same_place (system S ! j) (system S ! i))"
    by simp
  then obtain j where j: "j < length (system S)" "j \<noteq> i" "same_place (system S ! j) (system S ! i)"
    by auto
  show "Vx (system (snd (compute1 cfg S i)) ! i) = Vx (system S ! i)"
    "Vy (system (snd (compute1 cfg S i)) ! i) = Vy (system S ! i)"
    "Vz (system (snd (compute1 cfg S i)) ! i) = Vz (system S ! i)"
    by (rule compute1_coincident [OF i j])+
qed

text \<open>
  Claim C4. For a body of positive mass, \<^verbatim>\<open>cal_velocity\<close> returns the body with
  \<open>V\<^sub>n\<^sub>e\<^sub>w = V\<^sub>o\<^sub>l\<^sub>d + (F / mass) \<Delta>t\<close>, \<open>F\<close> being whatever the accumulator
  holds.  Within a step, the force task of body \<open>i\<close> completes exactly when no
  other body shares its position; when it completes, the accumulator holds the net
  force over all other bodies and the velocity after the first phase is
  \<open>V\<^sub>o\<^sub>l\<^sub>d + (F / mass) \<Delta>t\<close> with that force; when it raises, the velocity is
  unchanged.  In both cases the second phase sets
  \<open>P\<^sub>n\<^sub>e\<^sub>w = P\<^sub>o\<^sub>l\<^sub>d + V\<^sub>n\<^sub>e\<^sub>w \<Delta>t\<close> with the velocity left by the first phase,
  appends exactly \<open>P\<^sub>n\<^sub>e\<^sub>w\<close> to the trajectory, and advances the time-stamp by
  \<open>\<Delta>t / SEC_PER_DAY\<close> (a quotient that exists when \<^verbatim>\<open>SEC_PER_DAY\<close> is not zero).
\<close>

theorem semi_implicit_euler:
  assumes "i < length (system S)" and "mass (system S ! i) > 0"
  shows "(\<forall>b dt. mass b > 0 \<longrightarrow>
            cal_velocity dt b = Inr (b\<lparr>Vx := Vx b + (Fx b / mass b) * dt,
                                       Vy := Vy b + (Fy b / mass b) * dt,
                                       Vz := Vz b + (Fz b / mass b) * dt\<rparr>))
     \<and> (fst (compute1 cfg S i) = None \<longleftrightarrow>
          (\<forall>j < length (system S). j \<noteq> i \<longrightarrow> \<not> same_place (system S ! j) (system S ! i)))
     \<and> (fst (compute1 cfg S i) = None \<longrightarrow>
            Fx (system (phase1 cfg S) ! i) = fst (net_force (GRAV_CONS cfg) (system S) i)
          \<and> Fy (system (phase1 cfg S) ! i) = fst (snd (net_force (GRAV_CONS cfg) (system S) i))
          \<and> Fz (system (phase1 cfg S) ! i) = snd (snd (net_force (GRAV_CONS cfg) (system S) i))
          \<and> Vx (system (phase1 cfg S) ! i)
              = Vx (system S ! i) + (Fx (system (phase1 cfg S) ! i) / mass (system S ! i)) * DELTA_T S
          \<and> Vy (system (phase1 cfg S) ! i)
              = Vy (system S ! i) + (Fy (system (phase1 cfg S) ! i) / mass (system S ! i)) * DELTA_T S
          \<and> Vz (system (phase1 cfg S) ! i)
              = Vz (system S ! i) + (Fz (system (phase1 cfg S) ! i) / mass (system S ! i)) * DELTA_T S)
     \<and> (fst (compute1 cfg S i) \<noteq> None \<longrightarrow>
            Vx (system (phase1 cfg S) ! i) = Vx (system S ! i)
          \<and> Vy (system (phase1 cfg S) ! i) = Vy (system S ! i)
          \<and> Vz (system (phase1 cfg S) ! i) = Vz (system S ! i))
     \<and> x (system (phase2 cfg (phase1 cfg S)) ! i)
         = x (system S ! i) + Vx (system (phase1 cfg S) ! i) * DELTA_T S
     \<and> y (system (phase2 cfg (phase1 cfg S)) ! i)
         = y (system S ! i) + Vy (system (phase1 cfg S) ! i) * DELTA_T S
     \<and> z (system (phase2 cfg (phase1 cfg S)) ! i)
         = z (system S ! i) + Vz (system (phase1 cfg S) ! i) * DELTA_T S
     \<and> coord (system (phase2 cfg (phase1 cfg S)) ! i)
         = coord (system S ! i) @ [(x (system (phase2 cfg (phase1 cfg S)) ! i),
                                   y (system (phase2 cfg (phase1 cfg S)) ! i),
                                   z (system (phase2 cfg (phase1 cfg S)) ! i))]
     \<and> (SEC_PER_DAY cfg \<noteq> 0 \<longrightarrow>
          time (system (phase2 cfg (phase1 cfg S)) ! i)
            = time (system S ! i) + DELTA_T S / SEC_PER_DAY cfg)"
proof -
  note i = assms(1)
  have m: "mass (system S ! i) \<noteq> 0" using assms(2) by simp
  have vel: "cal_velocity dt b = Inr (b\<lparr>Vx := Vx b + (Fx b / mass b) * dt,
                                       Vy := Vy b + (Fy b / mass b) * dt,
                                       Vz := Vz b + (Fz b / mass b) * dt\<rparr>)"
    if "mass b > 0" for b dt
    using that by (simp add: cal_velocity_def)
  note iff = compute1_None_iff [OF i m, of cfg]
  have ok: "Fx (system (phase1 cfg S) ! i) = fst (net_force (GRAV_CONS cfg) (system S) i)
          \<and> Fy (system (phase1 cfg S) ! i) = fst (snd (net_force (GRAV_CONS cfg) (system S) i))
          \<and> Fz (system (phase1 cfg S) ! i) = snd (snd (net_force (GRAV_CONS cfg) (system S) i))
          \<and> Vx (system (phase1 cfg S) ! i)
              = Vx (system S ! i) + (Fx (system (phase1 cfg S) ! i) / mass (system S ! i)) * DELTA_T S
          \<and> Vy (system (phase1 cfg S) ! i)
              = Vy (system S ! i) + (Fy (system (phase1 cfg S) ! i) / mass (system S ! i)) * DELTA_T S
          \<and> Vz (system (phase1 cfg S) ! i)
              = Vz (system S ! i) + (Fz (system (phase1 cfg S) ! i) / mass (system S ! i)) * DELTA_T S"
    if n: "fst (compute1 cfg S i) = None"
  proof -
    from n iff have apart:
      "\<forall>j < length (system S). j \<noteq> i \<longrightarrow> \<not> same_place (system S ! j) (system S ! i)"
      by blast
    show ?thesis
      unfolding semi_implicit_euler_aux [OF i m apart, of cfg] by simp
  qed
  have raised: "Vx (system (phase1 cfg S) ! i) = Vx (system S ! i)
          \<and> Vy (system (phase1 cfg S) ! i) = Vy (system S ! i)
          \<and> Vz (system (phase1 cfg S) ! i) = Vz (system S ! i)"
    if e: "fst (compute1 cfg S i) \<noteq> None"
    using compute1_raised_velocity [OF i e m] i by (simp add: phase1_nth)
  have b2: "system (phase2 cfg (phase1 cfg S)) ! i
      = moved cfg (DELTA_T S) (system (phase1 cfg S) ! i)"
    using i by (simp add: phase2_nth)
  note fr = phase1_frame [OF i, of cfg]
  have pos: "x (system (phase1 cfg S) ! i) = x (system S ! i)"
    "y (system (phase1 cfg S) ! i) = y (system S ! i)"
    "z (system (phase1 cfg S) ! i) = z (system S ! i)"
    "coord (system (phase1 cfg S) ! i) = coord (system S ! i)"
    "time (system (phase1 cfg S) ! i) = time (system S ! i)"
    using erase_x [OF fr] erase_coord [OF fr] erase_time [OF fr] by simp_all
  have move: "x (system (phase2 cfg (phase1 cfg S)) ! i)
         = x (system S ! i) + Vx (system (phase1 cfg S) ! i) * DELTA_T S"
     "y (system (phase2 cfg (phase1 cfg S)) ! i)
         = y (system S ! i) + Vy (system (phase1 cfg S) ! i) * DELTA_T S"
     "z (system (phase2 cfg (phase1 cfg S)) ! i)
         = z (system S ! i) + Vz (system (phase1 cfg S) ! i) * DELTA_T S"
     "coord (system (phase2 cfg (phase1 cfg S)) ! i)
         = coord (system S ! i) @ [(x (system (phase2 cfg (phase1 cfg S)) ! i),
                                   y (system (phase2 cfg (phase1 cfg S)) ! i),
                                   z (system (phase2 cfg (phase1 cfg S)) ! i))]"
    unfolding b2 by (simp_all add: moved_def cal_position_def Let_def pos)
  have stamp: "time (system (phase2 cfg (phase1 cfg S)) ! i)
            = time (system S ! i) + DELTA_T S / SEC_PER_DAY cfg"
    if "SEC_PER_DAY cfg \<noteq> 0"
    unfolding b2 using that by (simp add: moved_def cal_position_def Let_def pos)
  from vel iff ok raised move stamp show ?thesis by blast
qed

text \<open>
  The two bodies of \<open>pair_system\<close> are apart: the first one gets the velocity
  \<open>3/4\<close> from the force \<open>3/2\<close> and its mass \<open>2\<close>, moves to \<open>3/4\<close>, and its
  time-stamp advances by one.  In \<open>stale_system\<close> the second body shares its
  position with the third: its force task raises, it keeps the velocity \<open>1\<close> and
  moves by it.
\<close>

theorem semi_implicit_euler_witness:
  "cal_velocity 1 ((system pair_system ! 0)\<lparr>Fx := 3 / 2\<rparr>)
     = Inr ((system pair_system ! 0)\<lparr>Fx := 3 / 2, Vx := 3 / 4, Vy := 0, Vz := 0\<rparr>)
   \<and> fst (compute1 demo_config pair_system 0) = None
   \<and> Vx (system (phase1 demo_config pair_system) ! 0) = 3 / 4
   \<and> x (system (phase2 demo_config (phase1 demo_config pair_system)) ! 0) = 3 / 4
   \<and> coord (system (phase2 demo_config (phase1 demo_config pair_system)) ! 0) = [(3 / 4, 0, 0)]
   \<and> time (system (phase2 demo_config (phase1 demo_config pair_system)) ! 0) = 1
   \<and> fst (compute1 demo_config stale_system (Suc 0)) \<noteq> None
   \<and> Vx (system (phase1 demo_config stale_system) ! Suc 0) = 1
   \<and> x (system (phase2 demo_config (phase1 demo_config stale_system)) ! Suc 0) = 1"
proof -
  have len: "(0::nat) < length (system pair_system)" by (simp add: pair_bodies)
  have m: "mass (system pair_system ! 0) > 0"
    by (simp add: pair_bodies body_at_def Body_def zeroF_def)
  have apart: "\<forall>j < length (system pair_system). j \<noteq> 0 \<longrightarrow>
      \<not> same_place (system pair_system ! j) (system pair_system ! 0)"
    by (auto simp: pair_bodies less_Suc_eq body_at_def Body_def zeroF_def same_place_def)
  have net: "net_force (GRAV_CONS demo_config) (system pair_system) 0 = (3 / 2, 0, 0)"
    using pair_newton by (simp add: net_force_def pair_bodies demo_config_def upt_rec [of 0] upt_rec [of 1])
  have vals: "Vx (system pair_system ! 0) = 0" "x (system pair_system ! 0) = 0"
    "y (system pair_system ! 0) = 0" "z (system pair_system ! 0) = 0"
    "Vy (system pair_system ! 0) = 0" "Vz (system pair_system ! 0) = 0"
    "mass (system pair_system ! 0) = 2" "coord (system pair_system ! 0) = []"
    "time (system pair_system ! 0) = 0" "DELTA_T pair_system = 1" "SEC_PER_DAY demo_config = 1"
    "Fy (system pair_system ! 0) = 0" "Fz (system pair_system ! 0) = 0"
    by (simp_all add: pair_bodies body_at_def Body_def zeroF_def pair_system_def Asystem_def demo_config_def)
  note t1 = semi_implicit_euler [OF len m, of demo_config]
  have mb: "mass ((system pair_system ! 0)\<lparr>Fx := 3 / 2\<rparr>) > 0" using m by simp
  from t1 mb have "cal_velocity 1 ((system pair_system ! 0)\<lparr>Fx := 3 / 2\<rparr>)
     = Inr (((system pair_system ! 0)\<lparr>Fx := 3 / 2\<rparr>)
         \<lparr>Vx := Vx ((system pair_system ! 0)\<lparr>Fx := 3 / 2\<rparr>)
               + (Fx ((system pair_system ! 0)\<lparr>Fx := 3 / 2\<rparr>) / mass ((system pair_system ! 0)\<lparr>Fx := 3 / 2\<rparr>)) * 1,
          Vy := Vy ((system pair_system ! 0)\<lparr>Fx := 3 / 2\<rparr>)
               + (Fy ((system pair_system ! 0)\<lparr>Fx := 3 / 2\<rparr>) / mass ((system pair_system ! 0)\<lparr>Fx := 3 / 2\<rparr>)) * 1,
          Vz := Vz ((system pair_system ! 0)\<lparr>Fx := 3 / 2\<rparr>)
               + (Fz ((system pair_system ! 0)\<lparr>Fx := 3 / 2\<rparr>) / mass ((system pair_system ! 0)\<lparr>Fx := 3 / 2\<rparr>)) * 1\<rparr>)"
    by blast
  then have w1: "cal_velocity 1 ((system pair_system ! 0)\<lparr>Fx := 3 / 2\<rparr>)
     = Inr ((system pair_system ! 0)\<lparr>Fx := 3 / 2, Vx := 3 / 4, Vy := 0, Vz := 0\<rparr>)"
    by (simp add: vals)
  from t1 apart have w2: "fst (compute1 demo_config pair_system 0) = None" by blast
  from t1 w2 have "Fx (system (phase1 demo_config pair_system) ! 0)
        = fst (net_force (GRAV_CONS demo_config) (system pair_system) 0)"
    and "Vx (system (phase1 demo_config pair_system) ! 0)
        = Vx (system pair_system ! 0)
          + (Fx (system (phase1 demo_config pair_system) ! 0) / mass (system pair_system ! 0))
            * DELTA_T pair_system"
    by blast+
  then have w3: "Vx (system (phase1 demo_config pair_system) ! 0) = 3 / 4"
    by (simp add: net vals)
  from t1 have p: "x (system (phase2 demo_config (phase1 demo_config pair_system)) ! 0)
         = x (system pair_system ! 0) + Vx (system (phase1 demo_config pair_system) ! 0) * DELTA_T pair_system"
    "y (system (phase2 demo_config (phase1 demo_config pair_system)) ! 0)
         = y (system pair_system ! 0) + Vy (system (phase1 demo_config pair_system) ! 0) * DELTA_T pair_system"
    "z (system (phase2 demo_config (phase1 demo_config pair_system)) ! 0)
         = z (system pair_system ! 0) + Vz (system (phase1 demo_config pair_system) ! 0) * DELTA_T pair_system"
    "coord (system (phase2 demo_config (phase1 demo_config pair_system)) ! 0)
         = coord (system pair_system ! 0) @ [(x (system (phase2 demo_config (phase1 demo_config pair_system)) ! 0),
                                   y (system (phase2 demo_config (phase1 demo_config pair_system)) ! 0),
                                   z (system (phase2 demo_config (phase1 demo_config pair_system)) ! 0))]"
    by blast+
  from t1 w2 have "Fy (system (phase1 demo_config pair_system) ! 0)
        = fst (snd (net_force (GRAV_CONS demo_config) (system pair_system) 0))"
    and "Fz (system (phase1 demo_config pair_system) ! 0)
        = snd (snd (net_force (GRAV_CONS demo_config) (system pair_system) 0))"
    and "Vy (system (phase1 demo_config pair_system) ! 0)
        = Vy (system pair_system ! 0)
          + (Fy (system (phase1 demo_config pair_system) ! 0) / mass (system pair_system ! 0))
            * DELTA_T pair_system"
    and "Vz (system (phase1 demo_config pair_system) ! 0)
        = Vz (system pair_system ! 0)
          + (Fz (system (phase1 demo_config pair_system) ! 0) / mass (system pair_system ! 0))
            * DELTA_T pair_system"
    by blast+
  then have vyz: "Vy (system (phase1 demo_config pair_system) ! 0) = 0"
    "Vz (system (phase1 demo_config pair_system) ! 0) = 0"
    by (simp_all add: net vals)
  have w4: "x (system (phase2 demo_config (phase1 demo_config pair_system)) ! 0) = 3 / 4"
    "coord (system (phase2 demo_config (phase1 demo_config pair_system)) ! 0) = [(3 / 4, 0, 0)]"
    using p by (simp_all add: w3 vyz vals)
  have sec: "SEC_PER_DAY demo_config \<noteq> 0" by (simp add: vals)
  from t1 sec have "time (system (phase2 demo_config (phase1 demo_config pair_system)) ! 0)
            = time (system pair_system ! 0) + DELTA_T pair_system / SEC_PER_DAY demo_config"
    by blast
  then have w5: "time (system (phase2 demo_config (phase1 demo_config pair_system)) ! 0) = 1"
    by (simp add: vals)
  have slen: "Suc 0 < length (system stale_system)" "2 < length (system stale_system)"
    by (simp_all add: stale_bodies)
  have sm: "mass (system stale_system ! Suc 0) > 0"
    by (simp add: stale_bodies body_at_def Body_def zeroF_def)
  have same: "same_place (system stale_system ! 2) (system stale_system ! Suc 0)"
    by (simp add: stale_bodies body_at_def Body_def zeroF_def same_place_def)
  have svals: "Vx (system stale_system ! Suc 0) = 1" "x (system stale_system ! Suc 0) = 0"
    "DELTA_T stale_system = 1"
    by (simp_all add: stale_bodies body_at_def Body_def zeroF_def stale_system_def Asystem_def demo_config_def)
  note t2 = semi_implicit_euler [OF slen(1) sm, of demo_config]
  have "\<not> (\<forall>j < length (system stale_system). j \<noteq> Suc 0 \<longrightarrow>
      \<not> same_place (system stale_system ! j) (system stale_system ! Suc 0))"
    using slen(2) same by auto
  with t2 have w6: "fst (compute1 demo_config stale_system (Suc 0)) \<noteq> None" by blast
  from t2 w6 have "Vx (system (phase1 demo_config stale_system) ! Suc 0) = Vx (system stale_system ! Suc 0)"
    by blast
  then have w7: "Vx (system (phase1 demo_config stale_system) ! Suc 0) = 1" by (simp add: svals)
  from t2 have "x (system (phase2 demo_config (phase1 demo_config stale_system)) ! Suc 0)
         = x (system stale_system ! Suc 0)
           + Vx (system (phase1 demo_config stale_system) ! Suc 0) * DELTA_T stale_system"
    by blast
  then have w8: "x (system (phase2 demo_config (phase1 demo_config stale_system)) ! Suc 0) = 1"
    by (simp add: w7 svals)
  show ?thesis
    by (intro conjI w1 w2 w3 w4 w5 w6 w7 w8)
qed

end
